theory Spec2Isabelle
  imports Main
begin

section \<open>JavaScript values\<close>

text \<open>
  IPC envelopes, client objects and option bags are plain JavaScript values. Numbers
  are the integers that occur in envelopes (counts, identifiers, millisecond timestamps)
  plus \<open>NaN\<close>; an object is the list of its own properties, and a key is looked up from
  the front. An array and a string have their indices and their \<open>length\<close>. Two objects
  are the same Map key when they are structurally equal. A value that has crossed the
  IPC channel is one of these: it is never a function.
\<close>

datatype jsval =
    Undefined
  | Null
  | JBool bool
  | JNum int
  | JNaN
  | JStr string
  | JArr "jsval list"
  | JObj "(string \<times> jsval) list"

datatype error = TypeError string | JsError string

fun truthy :: "jsval \<Rightarrow> bool" where
  "truthy Undefined = False"
| "truthy Null = False"
| "truthy (JBool b) = b"
| "truthy (JNum n) = (n \<noteq> 0)"
| "truthy JNaN = False"
| "truthy (JStr s) = (s \<noteq> [])"
| "truthy (JArr xs) = True"
| "truthy (JObj kvs) = True"

fun nullish :: "jsval \<Rightarrow> bool" where
  "nullish Undefined = True"
| "nullish Null = True"
| "nullish _ = False"

text \<open>
  An array index is a canonical decimal numeral: \<open>'0'\<close>, or digits that do not start
  with \<open>0\<close>.
\<close>

definition digit_of :: "char \<Rightarrow> nat option" where
  "digit_of c =
     (let n = (of_char c :: nat) in if 48 \<le> n \<and> n \<le> 57 then Some (n - 48) else None)"

fun digits_val :: "nat \<Rightarrow> string \<Rightarrow> nat option" where
  "digits_val acc [] = Some acc"
| "digits_val acc (c # cs) =
     (case digit_of c of None \<Rightarrow> None | Some d \<Rightarrow> digits_val (10 * acc + d) cs)"

fun array_index :: "string \<Rightarrow> nat option" where
  "array_index [] = None"
| "array_index [c] = digit_of c"
| "array_index (c # d # cs) = (if c = CHR ''0'' then None else digits_val 0 (c # d # cs))"

text \<open>
  \<open>v[k]\<close> on an envelope or option bag that is neither \<open>undefined\<close> nor \<open>null\<close>. The
  keys that the code reads from these values are fixed names (\<open>_ready\<close>, \<open>nonce\<close>,
  \<open>_result\<close>, \<open>limit\<close>, \<open>SHARD_LIST\<close>, \<open>0\<close>, ...), none of which is a property of
  \<open>Object.prototype\<close>, \<open>Array.prototype\<close> or \<open>String.prototype\<close>: the read finds an own
  property or \<open>undefined\<close>. The reads along the path of \<open>_fetchProp\<close>, whose segments are
  arbitrary and whose objects are the client's, are not made with \<open>jget\<close> (see
  \<open>fetchProp_walk\<close>).
\<close>

fun jget :: "jsval \<Rightarrow> string \<Rightarrow> jsval" where
  "jget (JObj kvs) k = (case map_of kvs k of Some v \<Rightarrow> v | None \<Rightarrow> Undefined)"
| "jget (JArr xs) k =
     (if k = ''length'' then JNum (int (length xs))
      else case array_index k of
             Some i \<Rightarrow> (if i < length xs then xs ! i else Undefined)
           | None \<Rightarrow> Undefined)"
| "jget (JStr s) k =
     (if k = ''length'' then JNum (int (length s))
      else case array_index k of
             Some i \<Rightarrow> (if i < length s then JStr [s ! i] else Undefined)
           | None \<Rightarrow> Undefined)"
| "jget _ k = Undefined"

text \<open>
  \<open>v[k]\<close> with one of these keys on any value: reading a property of \<open>undefined\<close> or
  \<open>null\<close> throws.
\<close>

definition get_prop :: "jsval \<Rightarrow> string \<Rightarrow> error + jsval" where
  "get_prop v k =
     (if nullish v then Inl (TypeError ''Cannot read properties of undefined or null'')
      else Inr (jget v k))"

text \<open>Whether \<open>k\<close> is an own property of the value.\<close>

fun own_key :: "jsval \<Rightarrow> string \<Rightarrow> bool" where
  "own_key (JObj kvs) k = (map_of kvs k \<noteq> None)"
| "own_key (JArr xs) k =
     (k = ''length'' \<or> (case array_index k of Some i \<Rightarrow> i < length xs | None \<Rightarrow> False))"
| "own_key (JStr s) k =
     (k = ''length'' \<or> (case array_index k of Some i \<Rightarrow> i < length s | None \<Rightarrow> False))"
| "own_key _ k = False"

text \<open>
  \<open>message.hasOwnProperty(k)\<close> on a truthy message. The method is looked up on the
  message like any other property: it is the one of \<open>Object.prototype\<close> unless the
  message has an own property named \<open>hasOwnProperty\<close>. Such a property shadows the
  method, and since its value is not a function the call throws.
\<close>

definition hasOwnProperty :: "jsval \<Rightarrow> string \<Rightarrow> error + bool" where
  "hasOwnProperty message k =
     (if own_key message ''hasOwnProperty''
      then Inl (TypeError ''message.hasOwnProperty is not a function'')
      else Inr (own_key message k))"

text \<open>\<open>if (message.hasOwnProperty(k)) yes else no\<close>\<close>

definition if_own :: "jsval \<Rightarrow> string \<Rightarrow> error + 'a \<Rightarrow> error + 'a \<Rightarrow> error + 'a" where
  "if_own message k yes no =
     (case hasOwnProperty message k of
        Inl e \<Rightarrow> Inl e
      | Inr b \<Rightarrow> if b then yes else no)"

text \<open>\<open>a || b\<close>.\<close>

definition js_or :: "jsval \<Rightarrow> jsval \<Rightarrow> jsval" where
  "js_or a b = (if truthy a then a else b)"

text \<open>\<open>Object.keys(v).length === 0\<close>; \<open>Object.keys\<close> throws on \<open>undefined\<close> and \<open>null\<close>.\<close>

fun keys_empty :: "jsval \<Rightarrow> error + bool" where
  "keys_empty Undefined = Inl (TypeError ''Cannot convert undefined or null to object'')"
| "keys_empty Null = Inl (TypeError ''Cannot convert undefined or null to object'')"
| "keys_empty (JObj kvs) = Inr (kvs = [])"
| "keys_empty (JArr xs) = Inr (xs = [])"
| "keys_empty (JStr s) = Inr (s = [])"
| "keys_empty _ = Inr True"

text \<open>\<open>{...o, k: v}\<close>: the property is replaced in place when present, appended otherwise.\<close>

fun set_key :: "string \<Rightarrow> jsval \<Rightarrow> (string \<times> jsval) list \<Rightarrow> (string \<times> jsval) list" where
  "set_key k v [] = [(k, v)]"
| "set_key k v ((k', v') # kvs) =
     (if k' = k then (k, v) # kvs else (k', v') # set_key k v kvs)"

section \<open>PromiseHandler\<close>

text \<open>
  A waiter is the object \<open>{resolve, reject, options}\<close> stored in the \<open>nonce\<close> Map.
  \<open>resolve\<close> and \<open>reject\<close> are the two callbacks of one promise, named here by the
  promise's number. The Map holds references: \<open>nonce\<close> maps a key to an address and
  \<open>heap\<close> maps the address to the object, so that a mutation of \<open>promise.results\<close> is
  seen through every alias.
\<close>

record waiter =
  w_promise :: nat
  w_timeout :: "nat option"
  w_results :: "jsval list option"
  w_options :: jsval

datatype outcome = Resolve jsval | Reject jsval

text \<open>The callback of the timer armed by \<open>create\<close>: the key, the promise, \<open>message.stack\<close>.\<close>

datatype timer_cb = PromiseTimedOut jsval nat jsval

record PromiseHandler =
  nonce :: "jsval \<rightharpoonup> nat"
  heap :: "nat \<rightharpoonup> waiter"
  promises :: "nat \<rightharpoonup> outcome"
  timers :: "nat \<rightharpoonup> timer_cb"
  calls :: "(nat \<times> outcome) list"
  fresh :: nat

definition new_PromiseHandler :: PromiseHandler where
  "new_PromiseHandler =
     \<lparr>nonce = Map.empty, heap = Map.empty, promises = Map.empty, timers = Map.empty,
      calls = [], fresh = 0\<rparr>"

text \<open>
  Calling a promise's \<open>resolve\<close> or \<open>reject\<close>: every call is recorded in \<open>calls\<close>; only
  the first one settles the promise.
\<close>

definition settle :: "nat \<Rightarrow> outcome \<Rightarrow> PromiseHandler \<Rightarrow> PromiseHandler" where
  "settle p out h =
     h\<lparr>promises := (if promises h p = None then (promises h)(p := Some out) else promises h),
       calls := calls h @ [(p, out)]\<rparr>"

definition clearTimeout :: "nat \<Rightarrow> PromiseHandler \<Rightarrow> PromiseHandler" where
  "clearTimeout t h = h\<lparr>timers := (timers h)(t := None)\<rparr>"

text \<open>The \<open>Error\<close> object built by \<open>resolve\<close> from \<open>message._error\<close>.\<close>

definition rebuilt_error :: "jsval \<Rightarrow> jsval" where
  "rebuilt_error message =
     JObj [(''message'', jget (jget message ''_error'') ''message''),
           (''stack'', js_or (jget message ''stack'') (jget (jget message ''_error'') ''stack'')),
           (''name'', jget (jget message ''_error'') ''name'')]"

definition resolve :: "PromiseHandler \<Rightarrow> jsval \<Rightarrow> PromiseHandler" where
  "resolve h message =
     (case nonce h (jget message ''nonce'') of
        None \<Rightarrow> h
      | Some r \<Rightarrow>
          (case heap h r of
             None \<Rightarrow> h
           | Some promise \<Rightarrow>
               let h1 = (case w_timeout promise of Some t \<Rightarrow> clearTimeout t h | None \<Rightarrow> h);
                   h2 = h1\<lparr>nonce := (nonce h1)(jget message ''nonce'' := None)\<rparr>
               in if truthy (jget message ''_error'')
                  then settle (w_promise promise) (Reject (rebuilt_error message)) h2
                  else settle (w_promise promise) (Resolve (jget message ''_result'')) h2))"

definition results_of :: "PromiseHandler \<Rightarrow> nat \<Rightarrow> jsval list" where
  "results_of h r =
     (case heap h r of
        Some promise \<Rightarrow> (case w_results promise of Some rs \<Rightarrow> rs | None \<Rightarrow> [])
      | None \<Rightarrow> [])"

definition set_results :: "nat \<Rightarrow> jsval list \<Rightarrow> PromiseHandler \<Rightarrow> PromiseHandler" where
  "set_results r rs h =
     (case heap h r of
        Some promise \<Rightarrow> h\<lparr>heap := (heap h)(r := Some (promise\<lparr>w_results := Some rs\<rparr>))\<rparr>
      | None \<Rightarrow> h)"

text \<open>
  \<open>insertResult({nonce, _result, _error})\<close>. The local \<open>promise\<close> is the address \<open>r\<close>:
  it stays valid after \<open>resolve\<close> has deleted the key, and the last statement stores it
  under the key again. \<open>promise.options.limit\<close> throws when \<open>options\<close> is missing.
\<close>

definition insertResult :: "PromiseHandler \<Rightarrow> jsval \<Rightarrow> error + PromiseHandler" where
  "insertResult h m =
     (let n = jget m ''nonce''; res = jget m ''_result''; err = jget m ''_error'' in
      case nonce h n of
        None \<Rightarrow> Inr h
      | Some r \<Rightarrow>
          (case heap h r of
             None \<Rightarrow> Inr h
           | Some promise \<Rightarrow>
               let h0 = (if w_results promise = None then set_results r [] h else h);
                   h1 = (if truthy err then resolve h0 (JObj [(''nonce'', n), (''_error'', err)])
                         else h0);
                   h2 = set_results r (results_of h1 r @ [res]) h1
               in case get_prop (w_options promise) ''limit'' of
                    Inl e \<Rightarrow> Inl e
                  | Inr limit \<Rightarrow>
                      let h3 = (if limit = JNum (int (length (results_of h2 r)))
                                then resolve h2
                                       (JObj [(''nonce'', n), (''_result'', JArr (results_of h2 r))])
                                else h2)
                      in Inr (h3\<lparr>nonce := (nonce h3)(n := Some r)\<rparr>)))"

text \<open>
  \<open>create(message, options)\<close> up to the point where the waiter is stored; the caller then
  waits for the promise. \<open>generated\<close> is the value of \<open>Util.generateNonce()\<close>. The result
  carries the key in use and the promise. The timer handle is a local variable of the
  executor: it is not a field of the stored object.
\<close>

definition create ::
  "PromiseHandler \<Rightarrow> jsval \<Rightarrow> jsval \<Rightarrow> jsval \<Rightarrow> error + (PromiseHandler \<times> jsval \<times> nat)" where
  "create h message options generated =
     (case keys_empty options of
        Inl e \<Rightarrow> Inl e
      | Inr noKeys \<Rightarrow>
          let options' = (if noKeys \<and> truthy (jget message ''options'')
                          then jget message ''options'' else options);
              n = (if \<not> truthy (jget message ''nonce'') then generated else jget message ''nonce'');
              p = fresh h;
              t = fresh h + 1;
              r = fresh h + 2;
              h1 = (if truthy (jget options' ''timeout'')
                    then h\<lparr>timers := (timers h)(t := Some (PromiseTimedOut n p (jget message ''stack'')))\<rparr>
                    else h)
          in Inr (h1\<lparr>nonce := (nonce h1)(n := Some r),
                     heap := (heap h1)(r := Some \<lparr>w_promise = p, w_timeout = None,
                                                   w_results = None, w_options = options'\<rparr>),
                     fresh := fresh h + 3\<rparr>, n, p))"

text \<open>The timer armed by \<open>create\<close> goes off.\<close>

definition fire :: "nat \<Rightarrow> PromiseHandler \<Rightarrow> PromiseHandler" where
  "fire t h =
     (case timers h t of
        None \<Rightarrow> h
      | Some (PromiseTimedOut n p stack) \<Rightarrow>
          settle p
            (Reject (JObj [(''message'', JStr ''Promise timed out''),
                           (''stack'', js_or stack (JStr ''Error: Promise timed out''))]))
            (h\<lparr>timers := (timers h)(t := None), nonce := (nonce h)(n := None)\<rparr>))"

text \<open>A registry with one waiter, as \<open>create({nonce: 'n'}, {limit: 1})\<close> leaves it.\<close>

definition one_waiter :: PromiseHandler where
  "one_waiter =
     \<lparr>nonce = [JStr ''n'' \<mapsto> 2],
      heap = [2 \<mapsto> \<lparr>w_promise = 0, w_timeout = None, w_results = None,
                    w_options = JObj [(''limit'', JNum 1)]\<rparr>],
      promises = Map.empty, timers = Map.empty, calls = [], fresh = 3\<rparr>"

section \<open>ClusterClient (child side)\<close>

text \<open>\<open>s.split(c)\<close>: the pieces between the separators; never an empty list.\<close>

fun split :: "char \<Rightarrow> string \<Rightarrow> string list" where
  "split c [] = [[]]"
| "split c (x # xs) =
     (if x = c then [] # split c xs
      else case split c xs of
             [] \<Rightarrow> [[x]]
           | w # ws \<Rightarrow> (x # w) # ws)"

text \<open>
  \<open>message._fetchProp.split('.')\<close>: only a string has a \<open>split\<close> method.
\<close>

fun fetchProp_split :: "jsval \<Rightarrow> error + string list" where
  "fetchProp_split (JStr s) = Inr (split CHR ''.'' s)"
| "fetchProp_split _ = Inl (TypeError ''message._fetchProp.split is not a function'')"

text \<open>
  \<open>for (const prop of props) value = value[prop];\<close> The values on the way are the
  client's objects, instances of classes that are not part of the sources.
  \<open>read v k\<close> is JavaScript's \<open>v[k]\<close> on such a value, when it is neither \<open>undefined\<close>
  nor \<open>null\<close>: the own property, or else the one found along the prototype chain (the
  \<open>size\<close> of a Map, the \<open>constructor\<close> of an object), or else \<open>undefined\<close>. Reading a
  property of \<open>undefined\<close> or \<open>null\<close> throws.
\<close>

fun fetchProp_walk :: "(jsval \<Rightarrow> string \<Rightarrow> jsval) \<Rightarrow> jsval \<Rightarrow> string list \<Rightarrow> error + jsval" where
  "fetchProp_walk read v [] = Inr v"
| "fetchProp_walk read v (p # ps) =
     (if nullish v then Inl (TypeError ''Cannot read properties of undefined or null'')
      else fetchProp_walk read (read v p) ps)"

text \<open>
  The child's state: the embedded client object, the \<open>_nonce\<close> Map (a waiter is
  \<open>{resolve, reject}\<close>, named by its promise) and the heartbeat object.
\<close>

record ClusterClient =
  client :: jsval
  cc_nonce :: "jsval \<rightharpoonup> nat"
  cc_heartbeat :: "(string \<times> jsval) list"

text \<open>
  What a run of the handler does to the outside: a reply handed to \<open>_respond\<close>, a call of
  a waiter's \<open>resolve\<close> or \<open>reject\<close>, an event emitted on the ClusterClient (the value
  emitted with \<open>'message'\<close> is the IPCMessage built around the envelope).
\<close>

datatype cc_action =
    Respond string jsval
  | Settled nat outcome
  | Emit string jsval

text \<open>
  The two response branches share their shape: take the waiter of \<open>message.nonce\<close>,
  reject with \<open>message._error\<close> when it is truthy and resolve with the payload
  otherwise, and delete the key.
\<close>

definition cc_answer :: "ClusterClient \<Rightarrow> jsval \<Rightarrow> string \<Rightarrow> ClusterClient \<times> cc_action list" where
  "cc_answer c message payload =
     (case cc_nonce c (jget message ''nonce'') of
        None \<Rightarrow> (c, [])
      | Some promise \<Rightarrow>
          (c\<lparr>cc_nonce := (cc_nonce c)(jget message ''nonce'' := None)\<rparr>,
           [Settled promise
              (if truthy (jget message ''_error'') then Reject (jget message ''_error'')
               else Resolve (jget message payload))]))"

definition heartbeatAckMessage :: "int \<Rightarrow> ClusterClient \<Rightarrow> ClusterClient" where
  "heartbeatAckMessage now c =
     c\<lparr>cc_heartbeat := set_key ''missed'' (JNum 0) (set_key ''last'' (JNum now) (cc_heartbeat c))\<rparr>"

text \<open>
  \<open>ClusterClient._handleMessage(message)\<close>. \<open>read\<close> is the property read of the
  client's objects (see \<open>fetchProp_walk\<close>), \<open>evalf\<close> is \<open>this._eval\<close> (\<open>Inl\<close>: the
  value it throws), \<open>makePlainError\<close> is \<open>Util.makePlainError\<close>, \<open>now\<close> is
  \<open>Date.now()\<close>. An exception that leaves the handler is the \<open>Inl\<close> result.
\<close>

definition cc_handleMessage ::
  "(jsval \<Rightarrow> string \<Rightarrow> jsval) \<Rightarrow> (jsval \<Rightarrow> jsval + jsval) \<Rightarrow> (jsval \<Rightarrow> jsval) \<Rightarrow> int
     \<Rightarrow> ClusterClient \<Rightarrow> jsval \<Rightarrow> error + (ClusterClient \<times> cc_action list)" where
  "cc_handleMessage read evalf makePlainError now c message =
     (if \<not> truthy message then Inr (c, [])
      else if truthy (jget message ''_fetchProp'') then
        (case fetchProp_split (jget message ''_fetchProp'') of
           Inl e \<Rightarrow> Inl e
         | Inr props \<Rightarrow>
             (case fetchProp_walk read (client c) props of
                Inl e \<Rightarrow> Inl e
              | Inr v \<Rightarrow>
                  Inr (c, [Respond ''fetchProp''
                             (JObj [(''_fetchProp'', jget message ''_fetchProp''), (''_result'', v)])])))
      else if truthy (jget message ''_eval'') then
        (case evalf (jget message ''_eval'') of
           Inr v \<Rightarrow>
             Inr (c, [Respond ''eval'' (JObj [(''_eval'', jget message ''_eval''), (''_result'', v)])])
         | Inl err \<Rightarrow>
             Inr (c, [Respond ''eval''
                        (JObj [(''_eval'', jget message ''_eval''), (''_error'', makePlainError err)])]))
      else
        if_own message ''_sClusterEvalRequest''
          (case evalf (jget message ''_sClusterEvalRequest'') of
             Inr v \<Rightarrow>
               Inr (c, [Respond ''evalOnCluster''
                          (JObj [(''_sClusterEvalResponse'', v), (''nonce'', jget message ''nonce''),
                                 (''cluster'', jget message ''cluster'')])])
           | Inl err \<Rightarrow>
               Inr (c, [Respond ''evalOnCluster''
                          (JObj [(''_sClusterEvalResponse'', JObj []), (''_error'', makePlainError err),
                                 (''nonce'', jget message ''nonce'')])]))
          (if_own message ''_sClusterEvalResponse''
             (Inr (cc_answer c message ''_sClusterEvalResponse''))
             (if_own message ''_sManagerEvalResponse''
                (Inr (cc_answer c message ''_sManagerEvalResponse''))
                (if truthy (jget message ''ack'') then Inr (heartbeatAckMessage now c, [])
                 else if truthy (jget message ''_sCustom'') then
                   (if truthy (jget message ''_sReply'') then
                      (case cc_nonce c (jget message ''nonce'') of
                         None \<Rightarrow> Inr (c, [])
                       | Some promise \<Rightarrow>
                           Inr (c\<lparr>cc_nonce := (cc_nonce c)(jget message ''nonce'' := None)\<rparr>,
                                [Settled promise (Resolve message)]))
                    else Inr (c, [Emit ''message'' message]))
                 else Inr (c, [])))))"

text \<open>
  \<open>ClusterClient.getInfo()\<close>. \<open>env\<close> is \<open>process.env\<close>, \<open>workerData\<close> the worker's
  data, \<open>num\<close> is \<open>Number\<close> on a string; \<open>Number(undefined)\<close> is \<open>NaN\<close>.
\<close>

definition Number_env :: "(string \<Rightarrow> jsval) \<Rightarrow> string option \<Rightarrow> jsval" where
  "Number_env num x = (case x of None \<Rightarrow> JNaN | Some s \<Rightarrow> num s)"

text \<open>
  \<open>xs[xs.length - 1]\<close>. For an array or a string this is the last element, and
  \<open>undefined\<close> when there is none; any other value is read as having no elements.
\<close>

fun last_elem :: "jsval \<Rightarrow> jsval" where
  "last_elem (JArr xs) = (if xs = [] then Undefined else last xs)"
| "last_elem (JStr s) = (if s = [] then Undefined else JStr [last s])"
| "last_elem _ = Undefined"

definition bad_mode :: error where
  "bad_mode = JsError ''NO CHILD/MASTER EXISTS OR SUPPLIED CLUSTER_MANAGER_MODE IS INCORRECT''"

definition getInfo ::
  "(string \<Rightarrow> jsval) \<Rightarrow> (string \<rightharpoonup> string) \<Rightarrow> jsval \<Rightarrow> error + jsval" where
  "getInfo num env workerData =
     (case env ''CLUSTER_MANAGER_MODE'' of
        None \<Rightarrow> Inr Undefined
      | Some clusterMode \<Rightarrow>
          if clusterMode = [] then Inr Undefined
          else if clusterMode \<noteq> ''worker'' \<and> clusterMode \<noteq> ''process'' then Inl bad_mode
          else
            (case (if clusterMode = ''process'' then
                     (case env ''SHARD_LIST'' of
                        None \<Rightarrow> Inl (TypeError ''Cannot read properties of undefined (reading split)'')
                      | Some sl \<Rightarrow>
                          Inr (JObj
                            [(''SHARD_LIST'', JArr (map num (split CHR '','' sl))),
                             (''TOTAL_SHARDS'', Number_env num (env ''TOTAL_SHARDS'')),
                             (''CLUSTER_COUNT'', Number_env num (env ''CLUSTER_COUNT'')),
                             (''CLUSTER'', Number_env num (env ''CLUSTER'')),
                             (''CLUSTER_MANAGER_MODE'', JStr clusterMode),
                             (''KEEP_ALIVE_INTERVAL'', Number_env num (env ''KEEP_ALIVE_INTERVAL'')),
                             (''CLUSTER_QUEUE_MODE'',
                                (case env ''CLUSTER_QUEUE_MODE'' of
                                   None \<Rightarrow> Undefined | Some q \<Rightarrow> JStr q))]))
                   else Inr workerData) of
               Inl e \<Rightarrow> Inl e
             | Inr data \<Rightarrow>
                 (case get_prop data ''SHARD_LIST'' of
                    Inl e \<Rightarrow> Inl e
                  | Inr shardList \<Rightarrow>
                      (case get_prop shardList ''0'' of
                         Inl e \<Rightarrow> Inl e
                       | Inr firstShard \<Rightarrow>
                           (case data of
                              JObj kvs \<Rightarrow>
                                Inr (JObj (set_key ''LAST_SHARD_ID'' (last_elem shardList)
                                            (set_key ''FIRST_SHARD_ID'' firstShard kvs)))
                            | _ \<Rightarrow> Inr data)))))"

text \<open>
  The first statement of the constructor that needs the bootstrap data:
  \<open>this.mode = this.info.CLUSTER_MANAGER_MODE\<close>, where \<open>this.info\<close> is \<open>getInfo()\<close>.
\<close>

definition constructor_mode ::
  "(string \<Rightarrow> jsval) \<Rightarrow> (string \<rightharpoonup> string) \<Rightarrow> jsval \<Rightarrow> error + jsval" where
  "constructor_mode num env workerData =
     (case getInfo num env workerData of
        Inl e \<Rightarrow> Inl e
      | Inr info \<Rightarrow> get_prop info ''CLUSTER_MANAGER_MODE'')"

section \<open>Cluster (manager side)\<close>

text \<open>
  \<open>manager.keepAlive\<close> is an object (the constructor reads its \<open>interval\<close>); a field
  that is absent is \<open>None\<close>, and in arithmetic and comparisons an absent number behaves
  as \<open>NaN\<close>: every comparison with it is false.
\<close>

record keepAlive =
  ka_interval :: "int option"
  maxMissedHeartbeats :: "int option"
  maxClusterRestarts :: "int option"

text \<open>\<open>Object.keys(this.manager.keepAlive).length === 0\<close>\<close>

definition keepAlive_empty :: "keepAlive \<Rightarrow> bool" where
  "keepAlive_empty ka =
     (ka_interval ka = None \<and> maxMissedHeartbeats ka = None \<and> maxClusterRestarts ka = None)"

text \<open>
  The heartbeat object \<open>{last, missed, interval}\<close>; \<open>{}\<close> has all three absent.
  \<open>hb_interval\<close> is the handle of the check timer.
\<close>

record heartbeat =
  hb_last :: "int option"
  hb_missed :: "int option"
  hb_interval :: "nat option"

definition empty_heartbeat :: heartbeat where
  "empty_heartbeat = \<lparr>hb_last = None, hb_missed = None, hb_interval = None\<rparr>"

datatype spawn_timeout = Millis int | Infinity

text \<open>
  The listeners that \<open>spawn\<close> registers on the Cluster with \<open>once\<close>; each names the
  promise it settles and the timer that \<open>cleanup\<close> clears. \<open>FetchListener\<close> is the
  listener that \<open>fetchClientValue\<close> puts on the child process.
\<close>

datatype listener = OnReady nat nat | OnDisconnect nat nat | OnDeath nat nat

text \<open>The event each of them is registered for.\<close>

fun event_of :: "listener \<Rightarrow> string" where
  "event_of (OnReady p t) = ''ready''"
| "event_of (OnDisconnect p t) = ''disconnect''"
| "event_of (OnDeath p t) = ''death''"

datatype process_listener = FetchListener string nat

record Cluster =
  thread :: "nat option"
  ready :: "bool option"
  heartbeat :: heartbeat
  restarts_current :: "int option"
  restarts_interval :: "nat option"
  evals :: "string \<rightharpoonup> nat"
  fetches :: "string \<rightharpoonup> nat"
  listeners :: "listener list"
  process_listeners :: "process_listener list"

text \<open>
  The callbacks of the timers. \<open>setInterval\<close> arms the hourly reset (in the constructor)
  and the heartbeat check; \<open>setTimeout\<close> arms the spawn timeout, the delay of \<open>respawn\<close>,
  and the timeout that the callback written in \<open>request\<close> would arm. The handles of the
  two kinds are different objects: \<open>Interval i\<close> and \<open>Timeout t\<close>.
\<close>

datatype interval_cb =
    RestartsReset nat
  | HeartbeatCheck nat

datatype timeout_cb =
    SpawnTimeout nat nat
  | RespawnDelay nat spawn_timeout
  | RequestTimeout jsval

datatype timer_ref = Interval nat | Timeout nat

text \<open>The value an event carries: an IPCMessage built by a Cluster, or the value itself.\<close>

datatype emitted = IPCMessage nat jsval | Plain jsval

text \<open>
  What the manager side does to the outside: debug lines, events, operations on a
  child (\<open>ThreadSpawn\<close> and \<open>ThreadKill\<close> carry the process handle), calls of
  ClusterManager methods, calls of a promise's \<open>resolve\<close> or \<open>reject\<close>.
\<close>

datatype m_action =
    Debug string nat
  | EmitCluster nat string emitted
  | EmitManager string emitted
  | ThreadSpawn nat nat
  | ThreadKill nat nat
  | ThreadSend nat jsval
  | ManagerCall string "jsval list"
  | SettleCall nat outcome

text \<open>A waiter of \<open>manager._nonce\<close>: \<open>{resolve, reject, requestCluster}\<close>.\<close>

record m_waiter =
  mw_promise :: nat
  requestCluster :: jsval

record Manager =
  m_keepAlive :: keepAlive
  m_respawn :: bool
  m_nonce :: "jsval \<rightharpoonup> m_waiter"
  clusters :: "nat \<rightharpoonup> Cluster"
  m_intervals :: "nat \<rightharpoonup> (int option \<times> interval_cb)"
  m_timeouts :: "nat \<rightharpoonup> (int option \<times> timeout_cb)"
  m_promises :: "nat \<rightharpoonup> outcome"
  error_catch :: "nat \<rightharpoonup> nat"
  m_log :: "m_action list"
  m_fresh :: nat

definition new_Manager :: "keepAlive \<Rightarrow> bool \<Rightarrow> Manager" where
  "new_Manager ka r =
     \<lparr>m_keepAlive = ka, m_respawn = r, m_nonce = Map.empty, clusters = Map.empty,
      m_intervals = Map.empty, m_timeouts = Map.empty, m_promises = Map.empty,
      error_catch = Map.empty, m_log = [], m_fresh = 0\<rparr>"

definition log :: "m_action \<Rightarrow> Manager \<Rightarrow> Manager" where
  "log a m = m\<lparr>m_log := m_log m @ [a]\<rparr>"

definition debug :: "string \<Rightarrow> nat \<Rightarrow> Manager \<Rightarrow> Manager" where
  "debug text cid m = log (Debug text cid) m"

definition update_cluster :: "nat \<Rightarrow> (Cluster \<Rightarrow> Cluster) \<Rightarrow> Manager \<Rightarrow> Manager" where
  "update_cluster cid f m =
     (case clusters m cid of
        None \<Rightarrow> m
      | Some c \<Rightarrow> m\<lparr>clusters := (clusters m)(cid := Some (f c))\<rparr>)"

text \<open>
  \<open>clearInterval(handle)\<close>, where the handle may be absent, and \<open>clearTimeout(handle)\<close>.
\<close>

definition clear_interval :: "nat option \<Rightarrow> Manager \<Rightarrow> Manager" where
  "clear_interval i m =
     (case i of None \<Rightarrow> m | Some h \<Rightarrow> m\<lparr>m_intervals := (m_intervals m)(h := None)\<rparr>)"

definition clear_timeout :: "nat \<Rightarrow> Manager \<Rightarrow> Manager" where
  "clear_timeout t m = m\<lparr>m_timeouts := (m_timeouts m)(t := None)\<rparr>"

text \<open>
  \<open>new Promise(...)\<close>: the promise named \<open>p\<close> starts pending, with no \<open>catch\<close> chained
  to it.
\<close>

definition new_promise :: "nat \<Rightarrow> Manager \<Rightarrow> Manager" where
  "new_promise p m =
     m\<lparr>m_promises := (m_promises m)(p := None), error_catch := (error_catch m)(p := None)\<rparr>"

definition js_Error :: "string \<Rightarrow> jsval" where
  "js_Error text = JObj [(''name'', JStr ''Error''), (''message'', JStr text)]"

definition js_TypeError :: "string \<Rightarrow> jsval" where
  "js_TypeError text = JObj [(''name'', JStr ''TypeError''), (''message'', JStr text)]"

fun thrown :: "error \<Rightarrow> jsval" where
  "thrown (TypeError text) = js_TypeError text"
| "thrown (JsError text) = js_Error text"

text \<open>
  A call of a promise's \<open>resolve\<close> or \<open>reject\<close>. Only the first call settles the
  promise. A promise that \<open>_handleExit\<close> chained \<open>.catch(err => this.emit('error', err))\<close>
  to emits \<open>error\<close> on its Cluster when it is rejected.
\<close>

definition m_settle :: "nat \<Rightarrow> outcome \<Rightarrow> Manager \<Rightarrow> Manager" where
  "m_settle p out m =
     (let m1 = log (SettleCall p out) m in
      if m_promises m1 p \<noteq> None then m1
      else
        (let m2 = m1\<lparr>m_promises := (m_promises m1)(p := Some out)\<rparr> in
         case out of
           Resolve v \<Rightarrow> m2
         | Reject e \<Rightarrow>
             (case error_catch m2 p of
                None \<Rightarrow> m2
              | Some cid \<Rightarrow> log (EmitCluster cid ''error'' (Plain e)) m2)))"

text \<open>
  The constructor, together with the manager's \<open>clusters.set(id, cluster)\<close>. An array
  is truthy, so \<open>if (Object.keys(this.manager.keepAlive))\<close> always holds: the counter
  starts at 0 and the hourly reset is armed whatever \<open>keepAlive\<close> contains.
\<close>

definition new_Cluster :: "Manager \<Rightarrow> nat \<Rightarrow> Manager" where
  "new_Cluster m cid =
     m\<lparr>clusters := (clusters m)(cid := Some
          \<lparr>thread = None, ready = None, heartbeat = empty_heartbeat,
           restarts_current = Some 0, restarts_interval = Some (m_fresh m),
           evals = Map.empty, fetches = Map.empty, listeners = [], process_listeners = []\<rparr>),
       m_intervals := (m_intervals m)(m_fresh m := Some (Some 3600000, RestartsReset cid)),
       m_fresh := m_fresh m + 1\<rparr>"

definition cleanupHeartbeat :: "Manager \<Rightarrow> nat \<Rightarrow> Manager" where
  "cleanupHeartbeat m cid =
     (case clusters m cid of
        None \<Rightarrow> m
      | Some c \<Rightarrow>
          let m1 = clear_interval (hb_interval (heartbeat c)) m in
          if keepAlive_empty (m_keepAlive m1) then m1
          else debug ''[Heartbeat] Heartbeat has been cleared'' cid
                 (update_cluster cid (\<lambda>c. c\<lparr>heartbeat := empty_heartbeat\<rparr>) m1))"

definition checkIfClusterAlive :: "Manager \<Rightarrow> nat \<Rightarrow> Manager" where
  "checkIfClusterAlive m cid =
     (if keepAlive_empty (m_keepAlive m) then m
      else
        let m1 = debug ''Heartbeat Interval CheckUp has started'' cid m;
            t = m_fresh m1
        in update_cluster cid (\<lambda>c. c\<lparr>heartbeat := (heartbeat c)\<lparr>hb_interval := Some t\<rparr>\<rparr>)
             (m1\<lparr>m_intervals := (m_intervals m1)(t := Some (ka_interval (m_keepAlive m1), HeartbeatCheck cid)),
                 m_fresh := t + 1\<rparr>))"

text \<open>
  \<open>cleanup\<close> of the spawn promise: \<open>clearTimeout\<close> and the three \<open>off\<close> calls.
\<close>

definition cleanup :: "nat \<Rightarrow> nat \<Rightarrow> nat \<Rightarrow> Manager \<Rightarrow> Manager" where
  "cleanup cid p t m =
     update_cluster cid
       (\<lambda>c. c\<lparr>listeners :=
               filter (\<lambda>l. l \<noteq> OnReady p t \<and> l \<noteq> OnDisconnect p t \<and> l \<noteq> OnDeath p t)
                 (listeners c)\<rparr>)
       (clear_timeout t m)"

text \<open>
  The value the \<open>spawn\<close> promise resolves with is \<open>this.thread.process\<close>, read in the
  continuation that runs right after the handler that emitted \<open>ready\<close>.
\<close>

definition resolve_with_process :: "nat \<Rightarrow> nat \<Rightarrow> Manager \<Rightarrow> Manager" where
  "resolve_with_process cid p m =
     (case clusters m cid of
        None \<Rightarrow> m_settle p (Reject (js_TypeError ''Cannot read properties of undefined'')) m
      | Some c \<Rightarrow>
          (case thread c of
             None \<Rightarrow> m_settle p (Reject (js_TypeError ''Cannot read properties of null (reading process)'')) m
           | Some h \<Rightarrow> m_settle p (Resolve (JNum (int h))) m))"

fun run_listener :: "nat \<Rightarrow> listener \<Rightarrow> Manager \<Rightarrow> Manager" where
  "run_listener cid (OnReady p t) m =
     resolve_with_process cid p (cleanup cid p t (cleanupHeartbeat m cid))"
| "run_listener cid (OnDisconnect p t) m =
     m_settle p (Reject (js_Error ''CLUSTERING_READY_DISCONNECTED'')) (cleanup cid p t m)"
| "run_listener cid (OnDeath p t) m =
     m_settle p (Reject (js_Error ''CLUSTERING_READY_DIED'')) (cleanup cid p t m)"

text \<open>
  \<open>this.emit(event, value)\<close> on a Cluster. The listeners registered for the event when
  the call starts run in order; each was registered with \<open>once\<close>, so it is taken off
  before it runs.
\<close>

definition once_run :: "nat \<Rightarrow> Manager \<Rightarrow> listener \<Rightarrow> Manager" where
  "once_run cid m l =
     run_listener cid l
       (update_cluster cid (\<lambda>c. c\<lparr>listeners := remove1 l (listeners c)\<rparr>) m)"

definition emit :: "Manager \<Rightarrow> nat \<Rightarrow> string \<Rightarrow> emitted \<Rightarrow> Manager" where
  "emit m cid ev v =
     (case clusters m cid of
        None \<Rightarrow> log (EmitCluster cid ev v) m
      | Some c \<Rightarrow>
          foldl (once_run cid) (log (EmitCluster cid ev v) m)
            (filter (\<lambda>l. event_of l = ev) (listeners c)))"

text \<open>
  \<open>spawn(spawnTimeout)\<close> up to its \<open>await\<close>, with the promise it returns. The
  promise, the new child's handle and the timer take the next three fresh numbers.
\<close>

definition spawn :: "Manager \<Rightarrow> nat \<Rightarrow> spawn_timeout \<Rightarrow> Manager \<times> nat" where
  "spawn m cid spawnTimeout =
     (let p = m_fresh m; h = m_fresh m + 1; t = m_fresh m + 2;
          m0 = new_promise p (m\<lparr>m_fresh := m_fresh m + 3\<rparr>)
      in case clusters m0 cid of
           None \<Rightarrow> (m_settle p (Reject (js_TypeError ''Cannot read properties of undefined'')) m0, p)
         | Some c \<Rightarrow>
             if thread c \<noteq> None
             then (m_settle p (Reject (js_Error ''CLUSTERING_PROCESS_EXISTS'')) m0, p)
             else
               let m1 = log (ThreadSpawn cid h)
                          (update_cluster cid
                             (\<lambda>c. c\<lparr>thread := Some h, evals := Map.empty, fetches := Map.empty\<rparr>) m0);
                   m2 = emit m1 cid ''spawn'' (Plain (JNum (int h)))
               in if spawnTimeout = Millis (- 1) \<or> spawnTimeout = Infinity
                  then (resolve_with_process cid p m2, p)
                  else
                    (update_cluster cid
                       (\<lambda>c. c\<lparr>listeners := listeners c @
                               [OnReady p t, OnDisconnect p t, OnDeath p t]\<rparr>)
                       (m2\<lparr>m_timeouts := (m_timeouts m2)(t := Some
                              (case spawnTimeout of Millis d \<Rightarrow> Some d | Infinity \<Rightarrow> None,
                               SpawnTimeout cid p))\<rparr>),
                     p))"

text \<open>
  \<open>_handleExit(respawn)\<close>. The promise of the \<open>spawn\<close> it starts gets the
  \<open>catch\<close> that emits \<open>error\<close>.
\<close>

definition handleExit :: "Manager \<Rightarrow> nat \<Rightarrow> bool \<Rightarrow> error + Manager" where
  "handleExit m cid respawn =
     (case clusters m cid of
        None \<Rightarrow> Inl (TypeError ''Cannot read properties of undefined'')
      | Some c \<Rightarrow>
          (case thread c of
             None \<Rightarrow> Inl (TypeError ''Cannot read properties of null (reading process)'')
           | Some h \<Rightarrow>
               let m1 = emit m cid ''death'' (Plain (JNum (int h)));
                   m2 = debug ''[DEATH] Cluster died, attempting respawn'' cid m1;
                   m3 = update_cluster cid
                          (\<lambda>c. c\<lparr>ready := Some False, thread := None,
                                 evals := Map.empty, fetches := Map.empty\<rparr>) m2
               in if respawn
                  then (case spawn m3 cid (Millis 30000) of
                          (m4, p) \<Rightarrow> Inr (m4\<lparr>error_catch := (error_catch m4)(p := Some cid)\<rparr>))
                  else Inr m3))"

text \<open>The \<open>exit\<close> listener is \<open>_handleExit\<close> bound to \<open>undefined\<close>: the default applies.\<close>

definition exitListener :: "Manager \<Rightarrow> nat \<Rightarrow> error + Manager" where
  "exitListener m cid = handleExit m cid (m_respawn m)"

text \<open>
  \<open>kill(options)\<close>; \<open>force\<close> is the truth value of \<open>options.force\<close>. The child's
  \<open>kill\<close> removes every listener of the process.
\<close>

definition kill :: "Manager \<Rightarrow> nat \<Rightarrow> bool \<Rightarrow> error + Manager" where
  "kill m cid force =
     (case clusters m cid of
        None \<Rightarrow> Inl (TypeError ''Cannot read properties of undefined'')
      | Some c \<Rightarrow>
          (case thread c of
             None \<Rightarrow> Inl (TypeError ''Cannot read properties of null (reading kill)'')
           | Some h \<Rightarrow>
               let m1 = log (ThreadKill cid h)
                          (update_cluster cid (\<lambda>c. c\<lparr>process_listeners := []\<rparr>) m);
                   m2 = (if force then cleanupHeartbeat m1 cid else m1)
               in handleExit m2 cid False))"

text \<open>
  \<open>respawn({delay, timeout})\<close>: the kill, then either the timer of \<open>Util.delayFor\<close>,
  whose callback is the \<open>spawn\<close>, or the \<open>spawn\<close> at once. The promise that \<open>respawn\<close>
  returns is the one of that \<open>spawn\<close>.
\<close>

definition respawn :: "Manager \<Rightarrow> nat \<Rightarrow> int \<Rightarrow> spawn_timeout \<Rightarrow> error + Manager" where
  "respawn m cid delay timeout =
     (case clusters m cid of
        None \<Rightarrow> Inl (TypeError ''Cannot read properties of undefined'')
      | Some c \<Rightarrow>
          (case (if thread c \<noteq> None then kill m cid True else Inr m) of
             Inl e \<Rightarrow> Inl e
           | Inr m1 \<Rightarrow>
               if delay > 0
               then Inr (m1\<lparr>m_timeouts := (m_timeouts m1)(m_fresh m1 := Some (Some delay, RespawnDelay cid timeout)),
                           m_fresh := m_fresh m1 + 1\<rparr>)
               else Inr (fst (spawn m1 cid timeout))))"

text \<open>
  \<open>send(message)\<close> declares one parameter: whatever else a caller passes is dropped.
  The only callback a caller in this file passes is the one written in \<open>request\<close>,
  \<open>OnSent nonce promise timeout\<close> (the waiter's key and promise, and
  \<open>message.timeout\<close>). The child's \<open>send\<close> returns a promise whenever \<open>this.thread\<close> is
  not \<open>null\<close>. The log keeps the message as the caller gave it; on an object
  \<open>new BaseMessage(message).toJSON()\<close> comes in between (see \<open>BaseMessage_toJSON\<close>).
\<close>

datatype send_extra = Void | OnSent jsval nat jsval

definition send :: "Manager \<Rightarrow> nat \<Rightarrow> jsval \<Rightarrow> send_extra list \<Rightarrow> error + Manager" where
  "send m cid message extra =
     (case clusters m cid of
        None \<Rightarrow> Inl (TypeError ''Cannot read properties of undefined (reading send)'')
      | Some c \<Rightarrow>
          (case thread c of
             None \<Rightarrow> Inl (TypeError ''Cannot read properties of null (reading send)'')
           | Some h \<Rightarrow> Inr (log (ThreadSend cid message) m)))"

text \<open>
  The callback written in \<open>request\<close>, were it called with \<open>e\<close>: it rejects when \<open>e\<close> is
  truthy and arms the timeout of \<open>message.timeout || 10000\<close> milliseconds.
\<close>

fun timeout_millis :: "jsval \<Rightarrow> int option" where
  "timeout_millis (JNum n) = (if n = 0 then Some 10000 else Some n)"
| "timeout_millis v = (if truthy v then None else Some 10000)"

fun run_send_extra :: "send_extra \<Rightarrow> jsval \<Rightarrow> Manager \<Rightarrow> Manager" where
  "run_send_extra Void e m = m"
| "run_send_extra (OnSent key p timeout) e m =
     (let m1 = (if truthy e
                then m_settle p (Reject (js_Error ''Failed to deliver Message to cluster'')) m
                else m)
      in m1\<lparr>m_timeouts := (m_timeouts m1)(m_fresh m1 := Some (timeout_millis timeout, RequestTimeout key)),
            m_fresh := m_fresh m1 + 1\<rparr>)"

definition request_timeout :: "jsval \<Rightarrow> Manager \<Rightarrow> Manager" where
  "request_timeout key m =
     (case m_nonce m key of
        None \<Rightarrow> m
      | Some w \<Rightarrow>
          (m_settle (mw_promise w) (Reject (js_Error ''Eval Request Timed out'')) m)
            \<lparr>m_nonce := (m_nonce m)(key := None)\<rparr>)"

text \<open>
  Modelled from the spec: \<open>new BaseMessage(message).toJSON()\<close> (Structures/IPCMessage.js
  is not part of the sources). The spec says that \<open>request\<close> "allocates nonce": the
  envelope keeps a nonce it has and gets the generated one otherwise.
\<close>

definition BaseMessage_toJSON :: "jsval \<Rightarrow> (string \<times> jsval) list \<Rightarrow> (string \<times> jsval) list" where
  "BaseMessage_toJSON generated message =
     (if truthy (jget (JObj message) ''nonce'') then message
      else set_key ''nonce'' generated message)"

text \<open>
  \<open>request(message)\<close>: the registered waiter's promise is the second component. An
  exception in the executor of \<open>new Promise\<close> rejects the promise. \<open>sent\<close> is a promise,
  so \<open>if (!sent)\<close> never holds.
\<close>

definition request_envelope :: "jsval \<Rightarrow> (string \<times> jsval) list \<Rightarrow> (string \<times> jsval) list" where
  "request_envelope generated message =
     BaseMessage_toJSON generated
       (set_key ''_sReply'' (JBool False) (set_key ''_sRequest'' (JBool True) message))"

definition request :: "Manager \<Rightarrow> nat \<Rightarrow> (string \<times> jsval) list \<Rightarrow> jsval \<Rightarrow> Manager \<times> nat" where
  "request m cid message generated =
     (let message' = request_envelope generated message;
          key = jget (JObj message') ''nonce'';
          p = m_fresh m;
          m1 = (new_promise p m)
                 \<lparr>m_nonce := (m_nonce m)(key := Some \<lparr>mw_promise = p, requestCluster = Undefined\<rparr>),
                  m_fresh := m_fresh m + 1\<rparr>
      in case send m1 cid (JObj message')
                [Void, Void, OnSent key p (jget (JObj message') ''timeout'')] of
           Inl e \<Rightarrow> (m_settle p (Reject (thrown e)) m1, p)
         | Inr m2 \<Rightarrow> (m2, p))"

text \<open>
  What the caller of \<open>request\<close> observes: the waiter's promise followed by
  \<open>.catch(e => ({...message, error: new Error(e.toString())}))\<close>; \<open>None\<close> is a promise
  that is still pending. \<open>toString\<close> is \<open>e.toString()\<close>.
\<close>

definition request_result ::
  "(jsval \<Rightarrow> string) \<Rightarrow> (string \<times> jsval) list \<Rightarrow> outcome option \<Rightarrow> outcome option" where
  "request_result toString message' out =
     (case out of
        None \<Rightarrow> None
      | Some (Resolve v) \<Rightarrow> Some (Resolve v)
      | Some (Reject e) \<Rightarrow> Some (Resolve (JObj (set_key ''error'' (js_Error (toString e)) message'))))"

text \<open>\<open>_heartbeatMessage(message)\<close>\<close>

definition heartbeatMessage :: "int \<Rightarrow> Manager \<Rightarrow> nat \<Rightarrow> error + Manager" where
  "heartbeatMessage now m cid =
     (if keepAlive_empty (m_keepAlive m) then Inr m
      else send (update_cluster cid
                   (\<lambda>c. c\<lparr>heartbeat := (heartbeat c)\<lparr>hb_last := Some now, hb_missed := Some 0\<rparr>\<rparr>) m)
             cid (JObj [(''ack'', JBool True), (''last'', JNum now)]) [])"

text \<open>
  The callback of the interval armed by \<open>_checkIfClusterAlive\<close>. \<open>this.respawn()\<close> is a
  call of an async function: an exception in it rejects the promise it returns, which
  nobody reads.
\<close>

definition js_gt :: "int option \<Rightarrow> int option \<Rightarrow> bool" where
  "js_gt a b = (case a of None \<Rightarrow> False | Some x \<Rightarrow> (case b of None \<Rightarrow> False | Some y \<Rightarrow> x > y))"

definition js_lt :: "int option \<Rightarrow> int option \<Rightarrow> bool" where
  "js_lt a b = (case a of None \<Rightarrow> False | Some x \<Rightarrow> (case b of None \<Rightarrow> False | Some y \<Rightarrow> x < y))"

definition js_eq :: "int option \<Rightarrow> int option \<Rightarrow> bool" where
  "js_eq a b = (case a of None \<Rightarrow> False | Some x \<Rightarrow> (case b of None \<Rightarrow> False | Some y \<Rightarrow> x = y))"

definition attempt_respawn :: "Manager \<Rightarrow> nat \<Rightarrow> Manager" where
  "attempt_respawn m cid =
     (let m1 = debug ''[Heartbeat_MISSING] Attempting respawn | Too many heartbeats were missing.'' cid m;
          m2 = cleanupHeartbeat m1 cid
      in case respawn m2 cid 500 (Millis 30000) of Inl e \<Rightarrow> m2 | Inr m3 \<Rightarrow> m3)"

definition heartbeat_check :: "int \<Rightarrow> Manager \<Rightarrow> nat \<Rightarrow> Manager" where
  "heartbeat_check now m cid =
     (case clusters m cid of
        None \<Rightarrow> m
      | Some c \<Rightarrow>
          (case hb_last (heartbeat c) of
             None \<Rightarrow> m
           | Some l \<Rightarrow>
               if js_gt (Some (now - l)) (map_option (\<lambda>i. i + 2000) (ka_interval (m_keepAlive m)))
               then
                 let missed = map_option (\<lambda>n. n + 1) (hb_missed (heartbeat c));
                     m1 = update_cluster cid (\<lambda>c. c\<lparr>heartbeat := (heartbeat c)\<lparr>hb_missed := missed\<rparr>\<rparr>) m;
                     m2 = (if js_lt missed (maxMissedHeartbeats (m_keepAlive m))
                           then debug ''[Heartbeat_MISSING] Heartbeat(s) have been missed.'' cid m1
                           else m1)
                 in if js_gt missed (maxMissedHeartbeats (m_keepAlive m))
                    then
                      (case restarts_current c of
                         None \<Rightarrow> attempt_respawn m2 cid
                       | Some n \<Rightarrow>
                           let m3 = update_cluster cid (\<lambda>c. c\<lparr>restarts_current := Some (n + 1)\<rparr>) m2
                           in if js_eq (Some (n + 1)) (maxClusterRestarts (m_keepAlive m))
                              then debug ''[Heartbeat_MISSING] Already attempted maximal Amount of Respawns in less then 1 hour | Cluster will be respawned, when the cooldown ends.'' cid m3
                              else if js_gt (Some (n + 1)) (maxClusterRestarts (m_keepAlive m))
                              then m3
                              else attempt_respawn m3 cid)
                    else m2
               else m))"

text \<open>
  \<open>fetchClientValue(prop)\<close> with the promise it returns, and the listener it puts on the
  child process. The \<open>catch\<close> of the \<open>send\<close> promise is not taken: the transport accepts
  the write.
\<close>

definition fetchClientValue :: "Manager \<Rightarrow> nat \<Rightarrow> string \<Rightarrow> Manager \<times> nat" where
  "fetchClientValue m cid prp =
     (let p = m_fresh m; m0 = new_promise p (m\<lparr>m_fresh := m_fresh m + 1\<rparr>) in
      case clusters m0 cid of
        None \<Rightarrow> (m_settle p (Reject (js_TypeError ''Cannot read properties of undefined'')) m0, p)
      | Some c \<Rightarrow>
          (case thread c of
             None \<Rightarrow> (m_settle p (Reject (js_Error ''CLUSTERING_NO_CHILD_EXISTS'')) m0, p)
           | Some h \<Rightarrow>
               (case fetches c prp of
                  Some cached \<Rightarrow> (m, cached)
                | None \<Rightarrow>
                    (update_cluster cid
                       (\<lambda>c. c\<lparr>process_listeners := process_listeners c @ [FetchListener prp p],
                              fetches := (fetches c)(prp := Some p)\<rparr>)
                       (log (ThreadSend cid (JObj [(''_fetchProp'', JStr prp)])) m0),
                     p))))"

fun run_process_listener :: "nat \<Rightarrow> jsval \<Rightarrow> Manager \<Rightarrow> process_listener \<Rightarrow> Manager" where
  "run_process_listener cid message m (FetchListener prp p) =
     (if \<not> truthy message \<or> jget message ''_fetchProp'' \<noteq> JStr prp then m
      else m_settle p (Resolve (jget message ''_result''))
             (update_cluster cid
                (\<lambda>c. c\<lparr>process_listeners := remove1 (FetchListener prp p) (process_listeners c),
                       fetches := (fetches c)(prp := None)\<rparr>) m))"

text \<open>The Map lookup \<open>this.manager.clusters\<close> with an arbitrary value as the key.\<close>

fun cluster_key :: "jsval \<Rightarrow> nat option" where
  "cluster_key (JNum i) = (if 0 \<le> i then Some (nat i) else None)"
| "cluster_key _ = None"

definition clusters_has :: "Manager \<Rightarrow> jsval \<Rightarrow> bool" where
  "clusters_has m k = (case cluster_key k of None \<Rightarrow> False | Some i \<Rightarrow> clusters m i \<noteq> None)"

text \<open>\<open>typeof message === 'object'\<close>\<close>

fun typeof_object :: "jsval \<Rightarrow> bool" where
  "typeof_object (JObj kvs) = True"
| "typeof_object (JArr xs) = True"
| "typeof_object Null = True"
| "typeof_object _ = False"

text \<open>
  Modelled from the spec: the field \<open>_sRequest\<close> of an IPCMessage (its class, in
  Structures/IPCMessage.js, is not part of the sources). The spec's dispatch table has
  "\<open>_sCustom\<close> with \<open>_sRequest\<close>: emit \<open>clientRequest\<close>": the IPCMessage shows the
  \<open>_sRequest\<close> of the envelope it wraps.
\<close>

fun IPCMessage_sRequest :: "emitted \<Rightarrow> jsval" where
  "IPCMessage_sRequest (IPCMessage cid message) = jget message ''_sRequest''"
| "IPCMessage_sRequest (Plain v) = jget v ''_sRequest''"

text \<open>
  The end of \<open>_handleMessage\<close>, reached by a falsy message, by a message that no
  branch recognises, and by \<open>_sCustom\<close>.
\<close>

definition emit_message :: "Manager \<Rightarrow> nat \<Rightarrow> jsval \<Rightarrow> Manager" where
  "emit_message m cid message =
     (if typeof_object message
      then emit (if truthy (IPCMessage_sRequest (IPCMessage cid message))
                 then log (EmitManager ''clientRequest'' (IPCMessage cid message)) m
                 else m)
             cid ''message'' (IPCMessage cid message)
      else emit m cid ''message'' (Plain message))"

text \<open>The branch of \<open>_sClusterEvalResponse\<close>.\<close>

definition cluster_eval_response :: "Manager \<Rightarrow> jsval \<Rightarrow> error + Manager" where
  "cluster_eval_response m message =
     (case m_nonce m (jget message ''nonce'') of
        None \<Rightarrow> Inr m
      | Some promise \<Rightarrow>
          let m1 = (m_settle (mw_promise promise)
                      (if truthy (jget message ''_error'') then Reject (jget message ''_error'')
                       else Resolve (jget message ''_sClusterEvalResponse'')) m)
                   \<lparr>m_nonce := (m_nonce m)(jget message ''nonce'' := None)\<rparr>
          in if clusters_has m1 (requestCluster promise)
             then (case cluster_key (requestCluster promise) of
                     None \<Rightarrow> Inr m1
                   | Some target \<Rightarrow> send m1 target message [])
             else Inr m1)"

text \<open>The branch of \<open>_sCustom\<close>, which does not return.\<close>

definition custom_reply :: "Manager \<Rightarrow> jsval \<Rightarrow> Manager" where
  "custom_reply m message =
     (if truthy (jget message ''_sReply'')
      then (case m_nonce m (jget message ''nonce'') of
              None \<Rightarrow> m
            | Some promise \<Rightarrow>
                (m_settle (mw_promise promise) (Resolve message) m)
                  \<lparr>m_nonce := (m_nonce m)(jget message ''nonce'' := None)\<rparr>)
      else m)"

fun with_requestCluster :: "nat \<Rightarrow> jsval \<Rightarrow> jsval" where
  "with_requestCluster cid (JObj kvs) = JObj (set_key ''requestCluster'' (JNum (int cid)) kvs)"
| "with_requestCluster cid v = JObj [(''requestCluster'', JNum (int cid))]"

text \<open>
  \<open>Cluster._handleMessage(message)\<close>. The ClusterManager's own methods are calls
  recorded in the log; what they do later is theirs.
\<close>

definition handleMessage :: "int \<Rightarrow> Manager \<Rightarrow> nat \<Rightarrow> jsval \<Rightarrow> error + Manager" where
  "handleMessage now m cid message =
     (if \<not> truthy message then Inr (emit_message m cid message)
      else if truthy (jget message ''_ready'') then
        Inr (checkIfClusterAlive
               (cleanupHeartbeat
                  (debug ''Ready'' cid
                     (emit (update_cluster cid (\<lambda>c. c\<lparr>ready := Some True\<rparr>) m) cid ''ready''
                        (Plain Undefined)))
                  cid)
               cid)
      else if truthy (jget message ''_disconnect'') then
        Inr (debug ''[DISCONNECT] Some Shards disconnected'' cid
               (emit (update_cluster cid (\<lambda>c. c\<lparr>ready := Some False\<rparr>) m) cid ''disconnect''
                  (Plain Undefined)))
      else if truthy (jget message ''_reconnecting'') then
        Inr (debug ''[RECONNECTING] Some Shards are attempting reconnect'' cid
               (emit (update_cluster cid (\<lambda>c. c\<lparr>ready := Some False\<rparr>) m) cid ''reconnecting''
                  (Plain Undefined)))
      else if truthy (jget message ''_keepAlive'') then heartbeatMessage now m cid
      else if truthy (jget message ''_sFetchProp'') then
        Inr (log (ManagerCall ''fetchClientValues''
                    [jget message ''_sFetchProp'', jget message ''_sFetchPropShard'']) m)
      else if truthy (jget message ''_sEval'') then
        Inr (log (ManagerCall ''_performOnShards''
                    [JStr ''eval'', JArr [jget message ''_sEval''], jget message ''_sEvalShard'',
                     jget message ''_sEvalTimeout'']) m)
      else
        if_own message ''_sManagerEval''
          (Inr (log (ManagerCall ''evalOnManager'' [jget message ''_sManagerEval'']) m))
          (if_own message ''_sClusterEval''
             (Inr (log (ManagerCall ''evalOnCluster''
                          [jget message ''_sClusterEval'', with_requestCluster cid message]) m))
             (if_own message ''_sClusterEvalResponse'' (cluster_eval_response m message)
                (if truthy (jget message ''_sRespawnAll'') then
                   Inr (log (ManagerCall ''respawnAll''
                               [JObj [(''clusterDelay'', jget (jget message ''_sRespawnAll'') ''clusterDelay''),
                                      (''respawnDelay'', jget (jget message ''_sRespawnAll'') ''respawnDelay''),
                                      (''timeout'', jget (jget message ''_sRespawnAll'') ''timeout'')]])
                          (debug ''Cluster requested respawn of all Clusters'' cid m))
                 else if truthy (jget message ''_spawnNextCluster'') then
                   Inr (log (ManagerCall ''queue.next'' []) m)
                 else if truthy (jget message ''_sCustom'') then
                   Inr (emit_message (custom_reply m message) cid message)
                 else Inr (emit_message m cid message)))))"

text \<open>
  A message of the child process: \<open>_handleMessage\<close> was put on the process first, the
  listeners of pending fetches after it.
\<close>

definition process_message :: "int \<Rightarrow> Manager \<Rightarrow> nat \<Rightarrow> jsval \<Rightarrow> error + Manager" where
  "process_message now m cid message =
     (case handleMessage now m cid message of
        Inl e \<Rightarrow> Inl e
      | Inr m1 \<Rightarrow>
          (case clusters m1 cid of
             None \<Rightarrow> Inr m1
           | Some c \<Rightarrow> Inr (foldl (run_process_listener cid message) m1 (process_listeners c))))"

text \<open>
  A timer goes off at time \<open>now\<close>. A timeout is gone once it has run; an interval stays.
\<close>

definition fire_interval :: "int \<Rightarrow> nat \<Rightarrow> Manager \<Rightarrow> Manager" where
  "fire_interval now i m =
     (case m_intervals m i of
        None \<Rightarrow> m
      | Some (d, RestartsReset cid) \<Rightarrow> update_cluster cid (\<lambda>c. c\<lparr>restarts_current := Some 0\<rparr>) m
      | Some (d, HeartbeatCheck cid) \<Rightarrow> heartbeat_check now m cid)"

definition fire_timeout :: "nat \<Rightarrow> Manager \<Rightarrow> Manager" where
  "fire_timeout t m =
     (case m_timeouts m t of
        None \<Rightarrow> m
      | Some (d, SpawnTimeout cid p) \<Rightarrow>
          m_settle p (Reject (js_Error ''CLUSTERING_READY_TIMEOUT''))
            (cleanup cid p t (m\<lparr>m_timeouts := (m_timeouts m)(t := None)\<rparr>))
      | Some (d, RespawnDelay cid timeout) \<Rightarrow>
          fst (spawn (m\<lparr>m_timeouts := (m_timeouts m)(t := None)\<rparr>) cid timeout)
      | Some (d, RequestTimeout key) \<Rightarrow>
          request_timeout key (m\<lparr>m_timeouts := (m_timeouts m)(t := None)\<rparr>))"

fun fire_timer :: "int \<Rightarrow> timer_ref \<Rightarrow> Manager \<Rightarrow> Manager" where
  "fire_timer now (Interval i) m = fire_interval now i m"
| "fire_timer now (Timeout t) m = fire_timeout t m"

section \<open>Events and the states the properties are stated on\<close>

text \<open>
  Each side runs one handler at a time. An event is a message of a child process, a
  timer going off, or the exit of a child; \<open>run\<close> handles a list of events in order and
  stops at the first exception that leaves a handler.
\<close>

datatype event = ChildMessage int nat jsval | TimerFires int timer_ref | ChildExit nat

fun step :: "Manager \<Rightarrow> event \<Rightarrow> error + Manager" where
  "step m (ChildMessage now cid message) = process_message now m cid message"
| "step m (TimerFires now t) = Inr (fire_timer now t m)"
| "step m (ChildExit cid) = exitListener m cid"

fun run :: "Manager \<Rightarrow> event list \<Rightarrow> error + Manager" where
  "run m [] = Inr m"
| "run m (e # es) = (case step m e of Inl x \<Rightarrow> Inl x | Inr m' \<Rightarrow> run m' es)"

text \<open>What is seen of one cluster of the manager.\<close>

definition thread_of :: "Manager \<Rightarrow> nat \<Rightarrow> nat option option" where
  "thread_of m cid = map_option thread (clusters m cid)"

definition heartbeat_of :: "Manager \<Rightarrow> nat \<Rightarrow> heartbeat option" where
  "heartbeat_of m cid = map_option heartbeat (clusters m cid)"

definition listeners_of :: "Manager \<Rightarrow> nat \<Rightarrow> listener list option" where
  "listeners_of m cid = map_option listeners (clusters m cid)"

text \<open>The timers that are armed: the intervals and the timeouts.\<close>

definition m_timers ::
  "Manager \<Rightarrow> (nat \<rightharpoonup> (int option \<times> interval_cb)) \<times> (nat \<rightharpoonup> (int option \<times> timeout_cb))" where
  "m_timers m = (m_intervals m, m_timeouts m)"

text \<open>
  \<open>keepAlive = {interval: 1000, maxMissedHeartbeats: 3, maxClusterRestarts: 2}\<close>, and
  a manager with cluster 0 whose \<open>spawn(30000)\<close> has been called (\<open>started\<close>) or whose
  \<open>spawn(-1)\<close> has returned (\<open>idle\<close>).
\<close>

definition budget2 :: keepAlive where
  "budget2 = \<lparr>ka_interval = Some 1000, maxMissedHeartbeats = Some 3, maxClusterRestarts = Some 2\<rparr>"

definition started :: Manager where
  "started = fst (spawn (new_Cluster (new_Manager budget2 True) 0) 0 (Millis 30000))"

definition idle :: Manager where
  "idle = fst (spawn (new_Cluster (new_Manager budget2 True) 0) 0 (Millis (- 1)))"

text \<open>
  A child that becomes ready, sends one heartbeat and falls silent, twice over: the
  checks of the first life run at 4000 to 7000, the delayed spawn at 7500, the second
  life starts at 8000 and its checks run at 12000 to 16000. All of it lies within the
  first hour, so the hourly reset (interval 0) does not occur.
\<close>

definition ready_message :: jsval where
  "ready_message = JObj [(''_ready'', JBool True)]"

definition keepAlive_message :: jsval where
  "keepAlive_message = JObj [(''_keepAlive'', JBool True)]"

definition silence :: "event list" where
  "silence =
     [ChildMessage 0 0 ready_message, ChildMessage 0 0 keepAlive_message,
      TimerFires 4000 (Interval 4), TimerFires 5000 (Interval 4), TimerFires 6000 (Interval 4),
      TimerFires 7000 (Interval 4),
      TimerFires 7500 (Timeout 5),
      ChildMessage 8000 0 ready_message, ChildMessage 8000 0 keepAlive_message,
      TimerFires 12000 (Interval 9), TimerFires 13000 (Interval 9), TimerFires 14000 (Interval 9),
      TimerFires 15000 (Interval 9), TimerFires 16000 (Interval 9)]"

text \<open>
  The log lines that tell a respawn: a child spawned or killed, and the two debug
  lines of the heartbeat check that start with \<open>[Heartbeat_MISSING] A\<close> ("Attempting
  respawn", "Already attempted maximal Amount of Respawns").
\<close>

fun lifecycle :: "m_action \<Rightarrow> bool" where
  "lifecycle (ThreadSpawn c h) = True"
| "lifecycle (ThreadKill c h) = True"
| "lifecycle (Debug text c) = (take 21 text = ''[Heartbeat_MISSING] A'')"
| "lifecycle _ = False"

text \<open>\<open>cluster.request({content: 'hello', timeout: 500})\<close> on the idle manager.\<close>

definition hello :: "(string \<times> jsval) list" where
  "hello = [(''content'', JStr ''hello''), (''timeout'', JNum 500)]"

definition asked :: Manager where
  "asked = fst (request idle 0 hello (JStr ''n1''))"

text \<open>
  The kinds of message the child's handler has a branch for, negated: a message that
  matches none of them. \<open>ignored\<close> is a message that has no property at all of those the
  handler looks at, and \<open>shadowing\<close> one whose only property is \<open>hasOwnProperty\<close>.
\<close>

definition cc_unhandled :: "jsval \<Rightarrow> bool" where
  "cc_unhandled message =
     (\<not> truthy (jget message ''_fetchProp'') \<and> \<not> truthy (jget message ''_eval'')
      \<and> \<not> own_key message ''_sClusterEvalRequest''
      \<and> \<not> own_key message ''_sClusterEvalResponse''
      \<and> \<not> own_key message ''_sManagerEvalResponse''
      \<and> \<not> truthy (jget message ''ack'') \<and> \<not> truthy (jget message ''_sCustom''))"

definition ignored :: jsval where
  "ignored = JObj [(''_ready'', JBool True)]"

definition shadowing :: jsval where
  "shadowing = JObj [(''hasOwnProperty'', JNum 1)]"

text \<open>
  The spec's words for \<open>fetchClientValue\<close>: "the value at that dotted path", each
  segment resolved in order with the property read \<open>read\<close> (\<open>path_value\<close>).
  \<open>path_broken\<close> says that the walk meets \<open>undefined\<close> or \<open>null\<close> before the last
  segment has been read.
\<close>

definition path_value :: "(jsval \<Rightarrow> string \<Rightarrow> jsval) \<Rightarrow> jsval \<Rightarrow> string \<Rightarrow> jsval" where
  "path_value read v p = foldl read v (split CHR ''.'' p)"

definition path_broken :: "(jsval \<Rightarrow> string \<Rightarrow> jsval) \<Rightarrow> jsval \<Rightarrow> string \<Rightarrow> bool" where
  "path_broken read v p =
     list_ex (\<lambda>n. nullish (foldl read v (take n (split CHR ''.'' p))))
       [0..<length (split CHR ''.'' p)]"

text \<open>
  A client \<open>{a: {b: 5}}\<close> and the client \<open>{}\<close>, both plain objects: \<open>a\<close>, \<open>b\<close> and \<open>c\<close>
  are no properties of \<open>Object.prototype\<close>, so on them the property read is \<open>jget\<close>.
\<close>

definition nested_client :: ClusterClient where
  "nested_client =
     \<lparr>client = JObj [(''a'', JObj [(''b'', JNum 5)])], cc_nonce = Map.empty, cc_heartbeat = []\<rparr>"

definition bare_client :: ClusterClient where
  "bare_client = \<lparr>client = JObj [], cc_nonce = Map.empty, cc_heartbeat = []\<rparr>"

section \<open>Vocabulary of the properties of the manager side\<close>

text \<open>
  \<open>quiet m m'\<close>: \<open>m'\<close> differs from \<open>m\<close> at most by settled promises, log lines, listeners
  taken off, fetch bookkeeping and cleared timeouts. The configuration, the waiters, the
  counter of fresh numbers, every cluster's thread and heartbeat and the intervals are
  the same, and no timeout has been armed.
\<close>

definition quiet :: "Manager \<Rightarrow> Manager \<Rightarrow> bool" where
  "quiet m m' =
     (m_keepAlive m' = m_keepAlive m \<and> m_respawn m' = m_respawn m \<and> m_fresh m' = m_fresh m
      \<and> m_nonce m' = m_nonce m \<and> error_catch m' = error_catch m
      \<and> (\<forall>cid. thread_of m' cid = thread_of m cid)
      \<and> (\<forall>cid. heartbeat_of m' cid = heartbeat_of m cid)
      \<and> m_intervals m' = m_intervals m
      \<and> (\<forall>t. m_timeouts m t = None \<longrightarrow> m_timeouts m' t = None))"

text \<open>
  What a listener of \<open>spawn\<close> settles its promise with, on a cluster whose child is
  \<open>h\<close>. \<open>listens_for m cid p t\<close>: one of the three listeners of the \<open>spawn\<close> promise
  \<open>p\<close> with timer \<open>t\<close> is still registered on the cluster. \<open>settled_clean\<close>: the
  promise is settled with \<open>out\<close>, its timer is not armed and none of its listeners is
  left.
\<close>

fun settles_with :: "listener \<Rightarrow> nat \<Rightarrow> outcome" where
  "settles_with (OnReady p t) h = Resolve (JNum (int h))"
| "settles_with (OnDisconnect p t) h = Reject (js_Error ''CLUSTERING_READY_DISCONNECTED'')"
| "settles_with (OnDeath p t) h = Reject (js_Error ''CLUSTERING_READY_DIED'')"

definition listens_for :: "Manager \<Rightarrow> nat \<Rightarrow> nat \<Rightarrow> nat \<Rightarrow> bool" where
  "listens_for m cid p t =
     (case clusters m cid of
        None \<Rightarrow> False
      | Some c \<Rightarrow> OnReady p t \<in> set (listeners c) \<or> OnDisconnect p t \<in> set (listeners c)
                 \<or> OnDeath p t \<in> set (listeners c))"

definition settled_clean :: "Manager \<Rightarrow> nat \<Rightarrow> nat \<Rightarrow> nat \<Rightarrow> outcome \<Rightarrow> bool" where
  "settled_clean m cid p t out =
     (m_promises m p = Some out \<and> m_timeouts m t = None \<and> \<not> listens_for m cid p t)"

text \<open>
  \<open>_handleMessage\<close> takes the first branch whose test holds. The tests are written on
  the properties the message has, whether or not the call of \<open>message.hasOwnProperty\<close>
  that the handler makes for three of them returns. \<open>before_response\<close>: the test of a
  branch above the one of \<open>_sClusterEvalResponse\<close> holds; \<open>before_custom\<close>: the test of
  a branch above the one of \<open>_sCustom\<close> holds. \<open>is_ClusterEvalResponse\<close> and
  \<open>is_custom\<close>: the first test that holds is the one of the branch they name.
\<close>

definition before_response :: "jsval \<Rightarrow> bool" where
  "before_response message =
     (truthy (jget message ''_ready'') \<or> truthy (jget message ''_disconnect'')
      \<or> truthy (jget message ''_reconnecting'') \<or> truthy (jget message ''_keepAlive'')
      \<or> truthy (jget message ''_sFetchProp'') \<or> truthy (jget message ''_sEval'')
      \<or> own_key message ''_sManagerEval'' \<or> own_key message ''_sClusterEval'')"

definition is_ClusterEvalResponse :: "jsval \<Rightarrow> bool" where
  "is_ClusterEvalResponse message =
     (truthy message \<and> \<not> before_response message
      \<and> own_key message ''_sClusterEvalResponse'')"

definition before_custom :: "jsval \<Rightarrow> bool" where
  "before_custom message =
     (before_response message \<or> own_key message ''_sClusterEvalResponse''
      \<or> truthy (jget message ''_sRespawnAll'') \<or> truthy (jget message ''_spawnNextCluster''))"

definition is_custom :: "jsval \<Rightarrow> bool" where
  "is_custom message =
     (truthy message \<and> \<not> before_custom message \<and> truthy (jget message ''_sCustom''))"

text \<open>
  The sends to a child in a log, and the \<open>message\<close> events of Clusters in a log;
  \<open>mute m m'\<close>: no \<open>message\<close> event has been added or lost between \<open>m\<close> and \<open>m'\<close>.
\<close>

fun is_send :: "m_action \<Rightarrow> bool" where
  "is_send (ThreadSend c message) = True"
| "is_send _ = False"

fun is_message_event :: "m_action \<Rightarrow> bool" where
  "is_message_event (EmitCluster c ev v) = (ev = ''message'')"
| "is_message_event _ = False"

definition message_events :: "Manager \<Rightarrow> m_action list" where
  "message_events m = filter is_message_event (m_log m)"

definition mute :: "Manager \<Rightarrow> Manager \<Rightarrow> bool" where
  "mute m m' = (message_events m' = message_events m)"

text \<open>
  \<open>watched\<close>: cluster 0 after its child became ready and sent one heartbeat at time 0,
  so that the heartbeat check is running. \<open>awaiting origin\<close>: the idle manager with one
  waiter under \<open>'n2'\<close> as \<open>evalOnCluster\<close> registers it, \<open>origin\<close> being its
  \<open>requestCluster\<close> (\<open>undefined\<close> when the manager's own host called \<open>evalOnCluster\<close>).
  \<open>eval_reply\<close> is the envelope with which the child of cluster 0 answers that request,
  \<open>custom_request\<close> a custom request of a child, \<open>custom_reply_to n\<close> a child's reply to
  the request with nonce \<open>n\<close>, and \<open>shadowing_custom\<close> a custom message that has a
  property named \<open>hasOwnProperty\<close>.
\<close>

definition watched :: Manager where
  "watched =
     (case run started [ChildMessage 0 0 ready_message, ChildMessage 0 0 keepAlive_message] of
        Inr m \<Rightarrow> m
      | Inl e \<Rightarrow> started)"

definition awaiting :: "jsval \<Rightarrow> Manager" where
  "awaiting origin =
     idle\<lparr>m_nonce := [JStr ''n2'' \<mapsto> \<lparr>mw_promise = 9, requestCluster = origin\<rparr>]\<rparr>"

definition eval_reply :: jsval where
  "eval_reply =
     JObj [(''_sClusterEvalResponse'', JNum 3), (''nonce'', JStr ''n2''), (''cluster'', JNum 0)]"

definition custom_request :: jsval where
  "custom_request =
     JObj [(''_sCustom'', JBool True), (''_sRequest'', JBool True), (''_sReply'', JBool False),
           (''nonce'', JStr ''n3''), (''content'', JStr ''hi'')]"

definition custom_reply_to :: "string \<Rightarrow> jsval" where
  "custom_reply_to n =
     JObj [(''_sCustom'', JBool True), (''_sRequest'', JBool False), (''_sReply'', JBool True),
           (''nonce'', JStr n), (''content'', JStr ''hi'')]"

definition shadowing_custom :: jsval where
  "shadowing_custom = JObj [(''_sCustom'', JBool True), (''hasOwnProperty'', JNum 1)]"

section \<open>Properties of the PromiseHandler\<close>

lemma create_one_waiter:
  "create new_PromiseHandler (JObj [(''nonce'', JStr ''n'')]) (JObj [(''limit'', JNum 1)]) (JStr ''g'')
     = Inr (one_waiter, JStr ''n'', 0)"
  by (simp add: create_def new_PromiseHandler_def one_waiter_def Let_def numeral_2_eq_2)

text \<open>
  The handle of the timer that \<open>create\<close> arms is a local variable of the executor,
  so \<open>resolve\<close> finds no \<open>promise.timeout\<close> to clear: after a \<open>resolve\<close> the timer is
  still armed, and when it goes off \<open>reject\<close> is called on the promise, which stays
  resolved.
\<close>

lemma resolve_leaves_timer_armed:
  "\<exists>h. create new_PromiseHandler (JObj [(''nonce'', JStr ''n'')]) (JObj [(''timeout'', JNum 100)])
          (JStr ''g'') = Inr (h, JStr ''n'', 0)
     \<and> timers (resolve h (JObj [(''nonce'', JStr ''n''), (''_result'', JNum 7)])) 1
         = Some (PromiseTimedOut (JStr ''n'') 0 Undefined)
     \<and> nonce (resolve h (JObj [(''nonce'', JStr ''n''), (''_result'', JNum 7)])) (JStr ''n'') = None
     \<and> promises (fire 1 (resolve h (JObj [(''nonce'', JStr ''n''), (''_result'', JNum 7)]))) 0
         = Some (Resolve (JNum 7))
     \<and> map fst (calls (fire 1 (resolve h (JObj [(''nonce'', JStr ''n''), (''_result'', JNum 7)]))))
         = [0, 0]"
  by (simp add: create_def new_PromiseHandler_def resolve_def settle_def fire_def Let_def
      js_or_def)

text \<open>
  Whenever \<open>insertResult\<close> finds the waiter and returns, the nonce is registered
  afterwards, whether or not the waiter has been settled on the way.
\<close>

lemma insertResult_reinserts:
  "nonce h (jget m ''nonce'') = Some r \<Longrightarrow> heap h r = Some w \<Longrightarrow> insertResult h m = Inr h' \<Longrightarrow>
   nonce h' (jget m ''nonce'') = Some r"
  by (auto simp: insertResult_def Let_def split: sum.splits if_splits)

text \<open>
  C2 (fails on the code). The claim: after \<open>insertResult\<close> delivers an error, or the
  accumulated results reach \<open>options.limit\<close>, the entry of the nonce has been removed.
  On the registry holding one waiter under \<open>'n'\<close> with \<open>limit = 1\<close>, delivering one result
  fulfils the promise with \<open>[7]\<close>, and delivering an error rejects it; in both runs
  \<open>resolve\<close> deletes the key and the last statement of \<open>insertResult\<close> stores the waiter
  under \<open>'n'\<close> again, so the registry still contains the nonce afterwards.
\<close>

theorem insertResult_keeps_settled_nonce:
  "(\<exists>h. insertResult one_waiter (JObj [(''nonce'', JStr ''n''), (''_result'', JNum 7)]) = Inr h
        \<and> promises h 0 = Some (Resolve (JArr [JNum 7]))
        \<and> nonce h (JStr ''n'') = Some 2)
   \<and> (\<exists>h e. insertResult one_waiter
               (JObj [(''nonce'', JStr ''n''), (''_error'', JObj [(''name'', JStr ''Error'')])]) = Inr h
        \<and> promises h 0 = Some (Reject e)
        \<and> nonce h (JStr ''n'') = Some 2)"
  by (simp add: insertResult_def one_waiter_def resolve_def settle_def set_results_def
      results_of_def get_prop_def rebuilt_error_def js_or_def Let_def)

section \<open>Restart budget of the heartbeat check\<close>

lemmas unfold_manager =
  heartbeat_check_def js_gt_def js_lt_def js_eq_def update_cluster_def debug_def log_def
  attempt_respawn_def cleanupHeartbeat_def clear_interval_def clear_timeout_def
  keepAlive_empty_def respawn_def
  kill_def handleExit_def emit_def m_settle_def Let_def empty_heartbeat_def fire_interval_def
  fire_timeout_def new_promise_def
  spawn_def new_Cluster_def new_Manager_def resolve_with_process_def process_message_def
  handleMessage_def checkIfClusterAlive_def heartbeatMessage_def send_def once_run_def
  cleanup_def emit_message_def

lemma budget_reached_no_respawn:
  assumes "clusters m cid = Some c" and "hb_last (heartbeat c) = Some l"
    and "ka_interval (m_keepAlive m) = Some i" and "now - l > i + 2000"
    and "hb_missed (heartbeat c) = Some k" and "maxMissedHeartbeats (m_keepAlive m) = Some mx"
    and "k + 1 > mx"
    and "restarts_current c = Some n" and "maxClusterRestarts (m_keepAlive m) = Some (n + 1)"
  shows "thread_of (heartbeat_check now m cid) cid = Some (thread c)
     \<and> filter lifecycle (m_log (heartbeat_check now m cid))
         = filter lifecycle (m_log m)
           @ [Debug ''[Heartbeat_MISSING] Already attempted maximal Amount of Respawns in less then 1 hour | Cluster will be respawned, when the cooldown ends.'' cid]"
  using assms
  by (simp add: heartbeat_check_def js_gt_def js_lt_def js_eq_def update_cluster_def debug_def
      log_def Let_def thread_of_def)

text \<open>
  C1 (fails on the code). The claim: with \<open>maxClusterRestarts = 2\<close>, each of the first
  two heartbeat-triggered respawn triggers within one hour performs a respawn, and the
  third only logs. In the run \<open>silence\<close> the check finds more than
  \<open>maxMissedHeartbeats\<close> missed beats three times (at 7000, 15000 and 16000). The first
  time the child is killed and spawned again. The second time the counter, increased
  before it is compared, equals \<open>maxClusterRestarts\<close>: the check logs "Already attempted
  maximal Amount of Respawns" and returns, and no child is killed. The third time it
  returns without a line. One respawn is performed, not two.
\<close>

theorem second_trigger_does_not_respawn:
  "\<exists>m. run started silence = Inr m
     \<and> filter lifecycle (m_log m) =
         [ThreadSpawn 0 2,
          Debug ''[Heartbeat_MISSING] Attempting respawn | Too many heartbeats were missing.'' 0,
          ThreadKill 0 2,
          ThreadSpawn 0 7,
          Debug ''[Heartbeat_MISSING] Already attempted maximal Amount of Respawns in less then 1 hour | Cluster will be respawned, when the cooldown ends.'' 0]
     \<and> thread_of m 0 = Some (Some 7)
     \<and> map_option restarts_current (clusters m 0) = Some (Some 3)"
  by (simp add: started_def silence_def budget2_def ready_message_def keepAlive_message_def
      thread_of_def unfold_manager eval_nat_numeral)

section \<open>Requests of a Cluster\<close>

lemma idle_state:
  "idle =
    \<lparr>m_keepAlive = budget2, m_respawn = True, m_nonce = Map.empty,
      clusters = [0 \<mapsto> \<lparr>thread = Some 2, ready = None, heartbeat = empty_heartbeat,
                         restarts_current = Some 0, restarts_interval = Some 0,
                         evals = Map.empty, fetches = Map.empty, listeners = [],
                         process_listeners = []\<rparr>],
      m_intervals = [0 \<mapsto> (Some 3600000, RestartsReset 0)], m_timeouts = Map.empty,
      m_promises = [1 \<mapsto> Resolve (JNum 2)], error_catch = Map.empty,
      m_log = [ThreadSpawn 0 2, EmitCluster 0 ''spawn'' (Plain (JNum 2)),
               SettleCall 1 (Resolve (JNum 2))],
      m_fresh = 4\<rparr>"
  by (simp add: idle_def spawn_def new_Cluster_def new_Manager_def resolve_with_process_def
      emit_def m_settle_def log_def update_cluster_def new_promise_def Let_def eval_nat_numeral)

lemma request_idle:
  "request idle 0 hello (JStr ''n1'') =
    (\<lparr>m_keepAlive = budget2, m_respawn = True,
      m_nonce = [JStr ''n1'' \<mapsto> \<lparr>mw_promise = 4, requestCluster = Undefined\<rparr>],
      clusters = [0 \<mapsto> \<lparr>thread = Some 2, ready = None, heartbeat = empty_heartbeat,
                         restarts_current = Some 0, restarts_interval = Some 0,
                         evals = Map.empty, fetches = Map.empty, listeners = [],
                         process_listeners = []\<rparr>],
      m_intervals = [0 \<mapsto> (Some 3600000, RestartsReset 0)], m_timeouts = Map.empty,
      m_promises = [1 \<mapsto> Resolve (JNum 2)], error_catch = Map.empty,
      m_log = [ThreadSpawn 0 2, EmitCluster 0 ''spawn'' (Plain (JNum 2)),
               SettleCall 1 (Resolve (JNum 2)),
               ThreadSend 0 (JObj [(''content'', JStr ''hello''), (''timeout'', JNum 500),
                                   (''_sRequest'', JBool True), (''_sReply'', JBool False),
                                   (''nonce'', JStr ''n1'')])],
      m_fresh = 5\<rparr>, 4)"
  by (simp add: idle_state hello_def request_def request_envelope_def BaseMessage_toJSON_def
      new_promise_def log_def send_def Let_def)

lemma idle_timers: "m_timers idle = ([0 \<mapsto> (Some 3600000, RestartsReset 0)], Map.empty)"
  by (simp add: m_timers_def idle_state)

lemma asked_timer: "fire_timer now t asked = asked"
  by (cases t) (simp_all add: asked_def request_idle fire_interval_def fire_timeout_def update_cluster_def)

lemma asked_timers: "run asked (map (\<lambda>(now, t). TimerFires now t) ts) = Inr asked"
  by (induction ts) (auto simp: asked_timer)

lemma request_arms_no_timer:
  "m_timers (fst (request m cid message generated)) = m_timers m"
  by (simp add: m_timers_def request_def Let_def send_def m_settle_def log_def new_promise_def
      split: option.splits sum.splits outcome.splits)

lemma request_stays_pending:
  assumes "clusters m cid = Some c" and "thread c = Some h"
  shows "(case request m cid message generated of
            (m', p) \<Rightarrow> m_timers m' = m_timers m \<and> m_promises m' p = None
               \<and> m_nonce m' (jget (JObj (request_envelope generated message)) ''nonce'')
                    = Some \<lparr>mw_promise = p, requestCluster = Undefined\<rparr>)"
  using assms by (simp add: m_timers_def request_def Let_def send_def log_def new_promise_def)

text \<open>
  C3 (fails on the code). The claim: a request that receives no reply is rejected
  with "Eval Request Timed out" after \<open>message.timeout\<close> and its nonce removed, so the
  caller always observes a value. \<open>request\<close> hands the callback that would arm the
  timeout to \<open>send\<close> as a fourth argument, and \<open>send(message)\<close> drops it. After
  \<open>request({content: 'hello', timeout: 500})\<close> on a cluster with a live child the armed
  timers are the ones armed before; and whatever timers go off afterwards, at whatever
  times, the nonce stays registered and the caller's promise stays pending.
\<close>

theorem request_never_times_out:
  "m_timers asked = m_timers idle
   \<and> (\<forall>ts. \<exists>m. run asked (map (\<lambda>(now, t). TimerFires now t) ts) = Inr m
            \<and> m_nonce m (JStr ''n1'') \<noteq> None
            \<and> (\<forall>toString. request_result toString (request_envelope (JStr ''n1'') hello)
                 (m_promises m (snd (request idle 0 hello (JStr ''n1'')))) = None))"
  by (simp add: asked_timers idle_timers)
    (simp add: asked_def request_idle request_result_def m_timers_def)

section \<open>The child's message handler\<close>

lemma child_emit_is_custom:
  "cc_handleMessage read evalf makePlainError now c message = Inr (c', acts) \<Longrightarrow>
   Emit ev v \<in> set acts \<Longrightarrow>
   ev = ''message'' \<and> v = message \<and> truthy (jget message ''_sCustom'')
   \<and> \<not> truthy (jget message ''_sReply'')"
  by (auto simp: cc_handleMessage_def cc_answer_def if_own_def hasOwnProperty_def
      split: if_splits sum.splits option.splits)

lemma falsy_shadows_nothing: "\<not> truthy message \<Longrightarrow> \<not> own_key message ''hasOwnProperty''"
  by (cases message) (simp_all add: digit_of_def)

lemma child_drops_unhandled:
  "cc_unhandled message \<Longrightarrow>
   cc_handleMessage read evalf makePlainError now c message =
     (if own_key message ''hasOwnProperty''
      then Inl (TypeError ''message.hasOwnProperty is not a function'')
      else Inr (c, []))"
  by (simp add: cc_handleMessage_def cc_unhandled_def if_own_def hasOwnProperty_def
      falsy_shadows_nothing)

text \<open>
  C9, as the claim states it, fails: the message \<open>{hasOwnProperty: 1}\<close> matches none of
  the handled kinds, and the handler does not drop it. Its first test with
  \<open>message.hasOwnProperty\<close> calls the number 1: the handler throws a TypeError.
\<close>

theorem shadowed_method_throws_in_child:
  "cc_unhandled shadowing
   \<and> cc_handleMessage jget (\<lambda>s. Inr Undefined) (\<lambda>e. e) 0 bare_client shadowing
       = Inl (TypeError ''message.hasOwnProperty is not a function'')"
  by (simp add: shadowing_def cc_unhandled_def cc_handleMessage_def if_own_def
      hasOwnProperty_def)

text \<open>
  C9, amended. The child's handler emits nothing but \<open>message\<close>, and that only for an
  envelope whose \<open>_sCustom\<close> is truthy and whose \<open>_sReply\<close> is not. A message that
  matches none of the handled kinds and has no own property named \<open>hasOwnProperty\<close> is
  dropped: the handler returns, it has done nothing and the state is as before. With
  such a property the handler throws a TypeError.
\<close>

theorem child_emits_only_custom_requests:
  "(cc_handleMessage read evalf makePlainError now c message = Inr (c', acts) \<longrightarrow>
      Emit ev v \<in> set acts \<longrightarrow>
      ev = ''message'' \<and> v = message \<and> truthy (jget message ''_sCustom'')
      \<and> \<not> truthy (jget message ''_sReply''))
   \<and> (cc_unhandled message \<longrightarrow>
        cc_handleMessage read evalf makePlainError now c message =
          (if own_key message ''hasOwnProperty''
           then Inl (TypeError ''message.hasOwnProperty is not a function'')
           else Inr (c, [])))"
proof (intro conjI impI)
  assume "cc_handleMessage read evalf makePlainError now c message = Inr (c', acts)"
    and "Emit ev v \<in> set acts"
  then have *: "ev = ''message'' \<and> v = message \<and> truthy (jget message ''_sCustom'')
      \<and> \<not> truthy (jget message ''_sReply'')"
    by (rule child_emit_is_custom)
  from * show "ev = ''message''" by simp
  from * show "v = message" by simp
  from * show "truthy (jget message ''_sCustom'')" by simp
  from * show "\<not> truthy (jget message ''_sReply'')" by simp
next
  assume "cc_unhandled message"
  then show "cc_handleMessage read evalf makePlainError now c message =
          (if own_key message ''hasOwnProperty''
           then Inl (TypeError ''message.hasOwnProperty is not a function'')
           else Inr (c, []))"
    by (rule child_drops_unhandled)
qed

theorem child_emits_only_custom_requests_witness:
  "cc_handleMessage jget (\<lambda>s. Inr Undefined) (\<lambda>e. e) 0 bare_client
     (JObj [(''_sCustom'', JBool True), (''content'', JStr ''hi'')])
   = Inr (bare_client,
          [Emit ''message'' (JObj [(''_sCustom'', JBool True), (''content'', JStr ''hi'')])])
   \<and> truthy (jget (JObj [(''_sCustom'', JBool True), (''content'', JStr ''hi'')]) ''_sCustom'')
   \<and> cc_unhandled ignored \<and> \<not> own_key ignored ''hasOwnProperty''
   \<and> cc_handleMessage jget (\<lambda>s. Inr Undefined) (\<lambda>e. e) 0 bare_client ignored
      = Inr (bare_client, [])"
  using child_emits_only_custom_requests
          [of jget "\<lambda>s. Inr Undefined" "\<lambda>e. e" 0 bare_client
              "JObj [(''_sCustom'', JBool True), (''content'', JStr ''hi'')]"
              bare_client
              "[Emit ''message'' (JObj [(''_sCustom'', JBool True), (''content'', JStr ''hi'')])]"
              "''message''" "JObj [(''_sCustom'', JBool True), (''content'', JStr ''hi'')]"]
        child_emits_only_custom_requests
          [of jget "\<lambda>s. Inr Undefined" "\<lambda>e. e" 0 bare_client ignored]
  by (simp add: cc_handleMessage_def cc_unhandled_def ignored_def if_own_def hasOwnProperty_def)

section \<open>A value of the client, fetched by the manager\<close>

lemma fetchProp_walk_foldl:
  "fetchProp_walk read v ps =
     (if (\<exists>n<length ps. nullish (foldl read v (take n ps)))
      then Inl (TypeError ''Cannot read properties of undefined or null'')
      else Inr (foldl read v ps))"
proof (induction ps arbitrary: v)
  case Nil
  show ?case by simp
next
  case (Cons p ps)
  show ?case
  proof (cases "nullish v")
    case True
    then have "\<exists>n<length (p # ps). nullish (foldl read v (take n (p # ps)))"
      by (intro exI[of _ 0]) simp
    with True show ?thesis by simp
  next
    case False
    have later: "(\<exists>n<length (p # ps). nullish (foldl read v (take n (p # ps))))
               = (\<exists>n<length ps. nullish (foldl read (read v p) (take n ps)))"
    proof
      assume "\<exists>n<length (p # ps). nullish (foldl read v (take n (p # ps)))"
      then obtain n where n: "n < length (p # ps)" "nullish (foldl read v (take n (p # ps)))"
        by blast
      with False obtain k where "n = Suc k" by (cases n) auto
      with n show "\<exists>n<length ps. nullish (foldl read (read v p) (take n ps))" by auto
    next
      assume "\<exists>n<length ps. nullish (foldl read (read v p) (take n ps))"
      then obtain n where "n < length ps" "nullish (foldl read (read v p) (take n ps))" by blast
      then show "\<exists>n<length (p # ps). nullish (foldl read v (take n (p # ps)))"
        by (intro exI[of _ "Suc n"]) simp
    qed
    from False have "fetchProp_walk read v (p # ps) = fetchProp_walk read (read v p) ps"
      by simp
    also have "\<dots> = (if (\<exists>n<length ps. nullish (foldl read (read v p) (take n ps)))
                     then Inl (TypeError ''Cannot read properties of undefined or null'')
                     else Inr (foldl read (read v p) ps))"
      by (rule Cons.IH)
    also have "\<dots> = (if (\<exists>n<length (p # ps). nullish (foldl read v (take n (p # ps))))
                     then Inl (TypeError ''Cannot read properties of undefined or null'')
                     else Inr (foldl read v (p # ps)))"
      by (simp only: later foldl_Cons)
    finally show ?thesis .
  qed
qed

lemma child_fetchProp:
  assumes "truthy message" and "jget message ''_fetchProp'' = JStr p" and "p \<noteq> []"
  shows "cc_handleMessage read evalf makePlainError now c message =
           (if path_broken read (client c) p
            then Inl (TypeError ''Cannot read properties of undefined or null'')
            else Inr (c, [Respond ''fetchProp''
                            (JObj [(''_fetchProp'', JStr p),
                                   (''_result'', path_value read (client c) p)])]))"
  using assms
  by (simp add: cc_handleMessage_def fetchProp_walk_foldl path_broken_def path_value_def
      list_ex_iff Bex_def)

lemma no_message_listener: "event_of l \<noteq> ''message''"
  by (cases l) simp_all

lemma emit_message_event: "emit m cid ''message'' v = log (EmitCluster cid ''message'' v) m"
  by (simp add: emit_def no_message_listener split: option.splits)

lemma fetch_listener_keeps:
  assumes "m_promises m q = None \<or> m_promises m q = Some (Resolve (jget message ''_result''))"
  shows "m_promises (run_process_listener cid message m l) q = None
       \<or> m_promises (run_process_listener cid message m l) q
           = Some (Resolve (jget message ''_result''))"
  using assms
  by (cases l) (auto simp: m_settle_def log_def update_cluster_def Let_def split: option.splits)

lemma fetch_listeners_keep:
  "m_promises m q = None \<or> m_promises m q = Some (Resolve (jget message ''_result'')) \<Longrightarrow>
   m_promises (foldl (run_process_listener cid message) m ls) q = None
   \<or> m_promises (foldl (run_process_listener cid message) m ls) q
        = Some (Resolve (jget message ''_result''))"
proof (induction ls arbitrary: m)
  case Nil
  then show ?case by simp
next
  case (Cons l ls)
  from Cons.prems have
    "m_promises (run_process_listener cid message m l) q = None
     \<or> m_promises (run_process_listener cid message m l) q
         = Some (Resolve (jget message ''_result''))"
    by (rule fetch_listener_keeps)
  then show ?case by (simp add: Cons.IH)
qed

lemma fetch_listener_resolves:
  assumes "truthy message" and "jget message ''_fetchProp'' = JStr p"
    and "m_promises m q = None \<or> m_promises m q = Some (Resolve (jget message ''_result''))"
  shows "m_promises (run_process_listener cid message m (FetchListener p q)) q
           = Some (Resolve (jget message ''_result''))"
  using assms
  by (auto simp: m_settle_def log_def update_cluster_def Let_def split: option.splits)

text \<open>
  The reply to \<open>{_fetchProp: p}\<close> arrives at the manager: \<open>_handleMessage\<close> emits it as
  \<open>message\<close>, and the listener that \<open>fetchClientValue(p)\<close> left on the child process
  resolves its promise with the \<open>_result\<close>.
\<close>

lemma fetch_reply_resolves:
  assumes "clusters m cid = Some k" and "process_listeners k = ls @ [FetchListener p q]"
    and "m_promises m q = None"
  shows "\<exists>m2. process_message now m cid (JObj [(''_fetchProp'', JStr p), (''_result'', v), (''nonce'', g)])
                = Inr m2
            \<and> m_promises m2 q = Some (Resolve v)"
proof -
  let ?reply = "JObj [(''_fetchProp'', JStr p), (''_result'', v), (''nonce'', g)]"
  let ?m1 = "log (EmitCluster cid ''message'' (IPCMessage cid ?reply)) m"
  have h: "handleMessage now m cid ?reply = Inr ?m1"
    by (simp add: handleMessage_def if_own_def hasOwnProperty_def emit_message_def
        emit_message_event)
  have c1: "clusters ?m1 cid = Some k" using assms(1) by (simp add: log_def)
  have r: "jget ?reply ''_result'' = v" by simp
  have "m_promises ?m1 q = None \<or> m_promises ?m1 q = Some (Resolve (jget ?reply ''_result''))"
    using assms(3) by (simp add: log_def)
  then have "m_promises (foldl (run_process_listener cid ?reply) ?m1 ls) q = None
     \<or> m_promises (foldl (run_process_listener cid ?reply) ?m1 ls) q
          = Some (Resolve (jget ?reply ''_result''))"
    by (rule fetch_listeners_keep)
  then have "m_promises (run_process_listener cid ?reply
                 (foldl (run_process_listener cid ?reply) ?m1 ls) (FetchListener p q)) q
           = Some (Resolve (jget ?reply ''_result''))"
    by (intro fetch_listener_resolves) simp_all
  then show ?thesis
    unfolding process_message_def h using c1 assms(2) by (simp del: run_process_listener.simps)
qed

lemma fetchClientValue_state:
  assumes "clusters m cid = Some k" and "thread k = Some h" and "fetches k p = None"
  shows "fetchClientValue m cid p =
     (m\<lparr>m_fresh := m_fresh m + 1,
        m_promises := (m_promises m)(m_fresh m := None),
        error_catch := (error_catch m)(m_fresh m := None),
        m_log := m_log m @ [ThreadSend cid (JObj [(''_fetchProp'', JStr p)])],
        clusters := (clusters m)(cid := Some
          (k\<lparr>process_listeners := process_listeners k @ [FetchListener p (m_fresh m)],
             fetches := (fetches k)(p := Some (m_fresh m))\<rparr>))\<rparr>,
      m_fresh m)"
  using assms
  by (simp add: fetchClientValue_def new_promise_def log_def update_cluster_def Let_def)

text \<open>
  C7, as the claim states it, fails: the client object \<open>{}\<close> has no \<open>a\<close>, and the
  handler of \<open>{_fetchProp: 'a.b'}\<close> throws a TypeError when it reads \<open>b\<close> of \<open>undefined\<close>.
  No reply is sent, and the promise of \<open>fetchClientValue('a.b')\<close> is pending: it does
  not return \<open>undefined\<close>.
\<close>

theorem fetchProp_missing_segment_throws:
  "cc_handleMessage jget (\<lambda>s. Inr Undefined) (\<lambda>e. e) 0 bare_client
     (JObj [(''_fetchProp'', JStr ''a.b'')])
   = Inl (TypeError ''Cannot read properties of undefined or null'')
   \<and> m_promises (fst (fetchClientValue idle 0 ''a.b'')) (snd (fetchClientValue idle 0 ''a.b''))
       = None"
  by (simp add: cc_handleMessage_def bare_client_def idle_state fetchClientValue_def
      new_promise_def log_def update_cluster_def Let_def)

text \<open>
  C7, amended. Let \<open>p\<close> be a non-empty dotted path, and let \<open>fetchClientValue(p)\<close> be
  called on a cluster that has a child and no fetch of \<open>p\<close> in flight. The call sends
  \<open>{_fetchProp: p}\<close> to the child and returns a pending promise. The child resolves the
  segments of \<open>p\<close> in order against its client object, each one with a JavaScript
  property read. When a read before the last yields \<open>undefined\<close> or \<open>null\<close>, the
  handler throws a TypeError and sends no reply: the promise is left pending.
  Otherwise the child replies once, with the value found (\<open>undefined\<close> when the last
  read finds nothing), and when that reply arrives at the manager the promise is
  resolved with that value. The envelopes are the ones that \<open>send\<close> puts on the
  channel on either side, and the channel delivers an envelope as it was sent.
\<close>

theorem fetchClientValue_resolves_with_path_value:
  assumes "clusters m cid = Some k" and "thread k = Some h" and "fetches k p = None"
    and "p \<noteq> []" and "fetchClientValue m cid p = (m1, q)"
  shows "m_log m1 = m_log m @ [ThreadSend cid (JObj [(''_fetchProp'', JStr p)])]
     \<and> m_promises m1 q = None
     \<and> (if path_broken read (client c) p
        then cc_handleMessage read evalf makePlainError now c
               (JObj (BaseMessage_toJSON g [(''_fetchProp'', JStr p)]))
             = Inl (TypeError ''Cannot read properties of undefined or null'')
        else cc_handleMessage read evalf makePlainError now c
               (JObj (BaseMessage_toJSON g [(''_fetchProp'', JStr p)]))
             = Inr (c, [Respond ''fetchProp''
                          (JObj [(''_fetchProp'', JStr p),
                                 (''_result'', path_value read (client c) p)])])
           \<and> (\<exists>m2. process_message now' m1 cid
                      (JObj (BaseMessage_toJSON g'
                         [(''_fetchProp'', JStr p), (''_result'', path_value read (client c) p)]))
                    = Inr m2
                  \<and> m_promises m2 q = Some (Resolve (path_value read (client c) p))))"
proof -
  let ?k1 = "k\<lparr>process_listeners := process_listeners k @ [FetchListener p (m_fresh m)],
               fetches := (fetches k)(p := Some (m_fresh m))\<rparr>"
  from assms(5) fetchClientValue_state[OF assms(1-3)]
  have q: "q = m_fresh m"
    and m1: "m1 = m\<lparr>m_fresh := m_fresh m + 1,
        m_promises := (m_promises m)(m_fresh m := None),
        error_catch := (error_catch m)(m_fresh m := None),
        m_log := m_log m @ [ThreadSend cid (JObj [(''_fetchProp'', JStr p)])],
        clusters := (clusters m)(cid := Some ?k1)\<rparr>"
    by auto
  have c1: "clusters m1 cid = Some ?k1" by (simp add: m1)
  have l1: "process_listeners ?k1 = process_listeners k @ [FetchListener p q]" by (simp add: q)
  have p1: "m_promises m1 q = None" by (simp add: m1 q)
  have lg: "m_log m1 = m_log m @ [ThreadSend cid (JObj [(''_fetchProp'', JStr p)])]"
    by (simp add: m1)
  have req: "JObj (BaseMessage_toJSON g [(''_fetchProp'', JStr p)])
           = JObj [(''_fetchProp'', JStr p), (''nonce'', g)]"
    by (simp add: BaseMessage_toJSON_def)
  have child: "cc_handleMessage read evalf makePlainError now c
                 (JObj (BaseMessage_toJSON g [(''_fetchProp'', JStr p)]))
           = (if path_broken read (client c) p
              then Inl (TypeError ''Cannot read properties of undefined or null'')
              else Inr (c, [Respond ''fetchProp''
                              (JObj [(''_fetchProp'', JStr p),
                                     (''_result'', path_value read (client c) p)])]))"
    unfolding req using assms(4) by (intro child_fetchProp) simp_all
  have rep: "JObj (BaseMessage_toJSON g'
                [(''_fetchProp'', JStr p), (''_result'', path_value read (client c) p)])
           = JObj [(''_fetchProp'', JStr p), (''_result'', path_value read (client c) p),
                   (''nonce'', g')]"
    by (simp add: BaseMessage_toJSON_def)
  from fetch_reply_resolves[OF c1 l1 p1, of now' "path_value read (client c) p" g']
  have arrives: "\<exists>m2. process_message now' m1 cid
                      (JObj (BaseMessage_toJSON g'
                         [(''_fetchProp'', JStr p), (''_result'', path_value read (client c) p)]))
                    = Inr m2
                  \<and> m_promises m2 q = Some (Resolve (path_value read (client c) p))"
    unfolding rep .
  from lg p1 child arrives show ?thesis by simp
qed

theorem fetchClientValue_resolves_with_path_value_witness:
  "cc_handleMessage jget (\<lambda>s. Inr Undefined) (\<lambda>e. e) 0 nested_client
     (JObj [(''_fetchProp'', JStr ''a.b''), (''nonce'', JStr ''g1'')])
   = Inr (nested_client,
          [Respond ''fetchProp'' (JObj [(''_fetchProp'', JStr ''a.b''), (''_result'', JNum 5)])])
   \<and> (\<exists>m2. process_message 0 (fst (fetchClientValue idle 0 ''a.b'')) 0
              (JObj [(''_fetchProp'', JStr ''a.b''), (''_result'', JNum 5), (''nonce'', JStr ''g2'')])
            = Inr m2
          \<and> m_promises m2 (snd (fetchClientValue idle 0 ''a.b'')) = Some (Resolve (JNum 5)))"
  using fetchClientValue_resolves_with_path_value
          [of idle 0
              "\<lparr>thread = Some 2, ready = None, heartbeat = empty_heartbeat,
                restarts_current = Some 0, restarts_interval = Some 0,
                evals = Map.empty, fetches = Map.empty, listeners = [],
                process_listeners = []\<rparr>"
              2 "''a.b''" "fst (fetchClientValue idle 0 ''a.b'')"
              "snd (fetchClientValue idle 0 ''a.b'')" jget nested_client
              "\<lambda>s. Inr Undefined" "\<lambda>e. e" 0 "JStr ''g1''" 0 "JStr ''g2''"]
  by (simp add: idle_state nested_client_def path_value_def path_broken_def upt_rec
      BaseMessage_toJSON_def)

section \<open>Bootstrap of the child\<close>

text \<open>
  C8, as the claim states it, fails: with no \<open>CLUSTER_MANAGER_MODE\<close> in the
  environment \<open>getInfo\<close> returns \<open>undefined\<close> without an error, and the constructor
  then fails with a TypeError when it reads the mode, not with the bad-mode error.
\<close>

theorem absent_mode_is_not_bad_mode:
  "getInfo (\<lambda>s. JNaN) Map.empty Undefined = Inr Undefined
   \<and> constructor_mode (\<lambda>s. JNaN) Map.empty Undefined
       = Inl (TypeError ''Cannot read properties of undefined or null'')
   \<and> constructor_mode (\<lambda>s. JNaN) Map.empty Undefined \<noteq> Inl bad_mode"
  by (simp add: getInfo_def constructor_mode_def get_prop_def bad_mode_def)

text \<open>
  C8, amended. \<open>getInfo\<close>, and with it the constructor, fails with the bad-mode error
  exactly when \<open>CLUSTER_MANAGER_MODE\<close> is present, not empty, and neither \<open>process\<close> nor
  \<open>worker\<close>. When the value is absent or empty, \<open>getInfo\<close> returns \<open>undefined\<close>, and only
  then.
\<close>

theorem bad_mode_iff_present_and_invalid:
  "(getInfo num env workerData = Inl bad_mode \<longleftrightarrow>
      (\<exists>mode. env ''CLUSTER_MANAGER_MODE'' = Some mode \<and> mode \<noteq> []
              \<and> mode \<noteq> ''process'' \<and> mode \<noteq> ''worker''))
   \<and> (constructor_mode num env workerData = Inl bad_mode \<longleftrightarrow>
      (\<exists>mode. env ''CLUSTER_MANAGER_MODE'' = Some mode \<and> mode \<noteq> []
              \<and> mode \<noteq> ''process'' \<and> mode \<noteq> ''worker''))
   \<and> (getInfo num env workerData = Inr Undefined \<longleftrightarrow>
      (env ''CLUSTER_MANAGER_MODE'' = None \<or> env ''CLUSTER_MANAGER_MODE'' = Some []))"
  by (simp add: getInfo_def constructor_mode_def get_prop_def bad_mode_def
      split: option.splits sum.splits jsval.splits)

theorem bad_mode_iff_present_and_invalid_witness:
  "getInfo (\<lambda>s. JNaN) [''CLUSTER_MANAGER_MODE'' \<mapsto> ''cluster''] Undefined = Inl bad_mode
   \<and> constructor_mode (\<lambda>s. JNaN) [''CLUSTER_MANAGER_MODE'' \<mapsto> ''cluster''] Undefined
       = Inl bad_mode"
  using bad_mode_iff_present_and_invalid
          [of "\<lambda>s. JNaN" "[''CLUSTER_MANAGER_MODE'' \<mapsto> ''cluster'']" Undefined]
  by simp

section \<open>States used by the counterexamples and witnesses\<close>

lemma watched_state:
  "clusters watched 0 =
     Some \<lparr>thread = Some 2, ready = Some True,
           heartbeat = \<lparr>hb_last = Some 0, hb_missed = Some 0, hb_interval = Some 4\<rparr>,
           restarts_current = Some 0, restarts_interval = Some 0,
           evals = Map.empty, fetches = Map.empty, listeners = [], process_listeners = []\<rparr>"
  "m_keepAlive watched = budget2"
  "m_intervals watched = [0 \<mapsto> (Some 3600000, RestartsReset 0), 4 \<mapsto> (Some 1000, HeartbeatCheck 0)]"
  "m_fresh watched = 5"
  by (simp_all add: watched_def started_def budget2_def ready_message_def keepAlive_message_def
      unfold_manager eval_nat_numeral fun_upd_twist)

section \<open>What the heartbeat survives\<close>

lemma quiet_refl: "quiet m m"
  by (simp add: quiet_def)

lemma quiet_trans: "quiet a b \<Longrightarrow> quiet b c \<Longrightarrow> quiet a c"
  by (simp add: quiet_def)

lemma quiet_log: "quiet m (log a m)"
  by (simp add: quiet_def log_def thread_of_def heartbeat_of_def)

lemma quiet_debug: "quiet m (debug text cid m)"
  by (simp add: debug_def quiet_log)

lemma quiet_settle: "quiet m (m_settle p out m)"
  by (simp add: quiet_def m_settle_def log_def thread_of_def heartbeat_of_def Let_def
      split: outcome.splits option.splits)

lemma quiet_listeners:
  "quiet m (update_cluster cid (\<lambda>c. c\<lparr>listeners := f (listeners c)\<rparr>) m)"
  by (simp add: quiet_def update_cluster_def thread_of_def heartbeat_of_def split: option.splits)

lemma quiet_clear_timeout: "quiet m (clear_timeout t m)"
  by (simp add: quiet_def clear_timeout_def thread_of_def heartbeat_of_def)

lemma quiet_cleanup: "quiet m (cleanup cid p t m)"
  unfolding cleanup_def
  by (rule quiet_trans[OF quiet_clear_timeout quiet_listeners])

lemma quiet_resolve_with_process: "quiet m (resolve_with_process cid p m)"
  by (simp add: resolve_with_process_def quiet_settle split: option.splits)

lemma quiet_once_run: "event_of l \<noteq> ''ready'' \<Longrightarrow> quiet m (once_run cid m l)"
  apply (cases l)
    apply (simp_all add: once_run_def)
   apply (rule quiet_trans[OF quiet_listeners], rule quiet_trans[OF quiet_cleanup], rule quiet_settle)+
  done

lemma quiet_foldl:
  "\<forall>l\<in>set ls. event_of l \<noteq> ''ready'' \<Longrightarrow> quiet m (foldl (once_run cid) m ls)"
proof (induction ls arbitrary: m)
  case Nil
  show ?case by (simp add: quiet_refl)
next
  case (Cons l ls)
  have "quiet m (once_run cid m l)" using Cons.prems by (simp add: quiet_once_run)
  moreover have "quiet (once_run cid m l) (foldl (once_run cid) (once_run cid m l) ls)"
    using Cons.prems by (intro Cons.IH) simp
  ultimately show ?case by (simp add: quiet_trans)
qed

lemma quiet_emit: "ev \<noteq> ''ready'' \<Longrightarrow> quiet m (emit m cid ev v)"
  unfolding emit_def
  by (auto split: option.splits intro!: quiet_log quiet_trans[OF quiet_log quiet_foldl])

lemma no_spawn_listener: "event_of l \<noteq> ''spawn''"
  by (cases l) simp_all

lemma emit_spawn_event: "emit m cid ''spawn'' v = log (EmitCluster cid ''spawn'' v) m"
  by (simp add: emit_def no_spawn_listener split: option.splits)

text \<open>\<open>spawn\<close> on a cluster with no child, as the state it leaves.\<close>

lemma spawn_state:
  assumes "clusters m cid = Some c" "thread c = None"
  shows "spawn m cid st =
     (if st = Millis (- 1) \<or> st = Infinity
      then (m\<lparr>m_fresh := m_fresh m + 3,
               clusters := (clusters m)(cid := Some (c\<lparr>thread := Some (m_fresh m + 1), evals := Map.empty, fetches := Map.empty\<rparr>)),
               m_log := m_log m @ [ThreadSpawn cid (m_fresh m + 1), EmitCluster cid ''spawn'' (Plain (JNum (int (m_fresh m + 1)))),
                                   SettleCall (m_fresh m) (Resolve (JNum (int (m_fresh m + 1))))],
               m_promises := (m_promises m)(m_fresh m := Some (Resolve (JNum (int (m_fresh m + 1))))),
               error_catch := (error_catch m)(m_fresh m := None)\<rparr>, m_fresh m)
      else (m\<lparr>m_fresh := m_fresh m + 3,
               clusters := (clusters m)(cid := Some (c\<lparr>thread := Some (m_fresh m + 1), evals := Map.empty, fetches := Map.empty,
                     listeners := listeners c @ [OnReady (m_fresh m) (m_fresh m + 2), OnDisconnect (m_fresh m) (m_fresh m + 2), OnDeath (m_fresh m) (m_fresh m + 2)]\<rparr>)),
               m_log := m_log m @ [ThreadSpawn cid (m_fresh m + 1), EmitCluster cid ''spawn'' (Plain (JNum (int (m_fresh m + 1))))],
               m_timeouts := (m_timeouts m)(m_fresh m + 2 := Some (case st of Millis d \<Rightarrow> Some d | Infinity \<Rightarrow> None, SpawnTimeout cid (m_fresh m))),
               m_promises := (m_promises m)(m_fresh m := None),
               error_catch := (error_catch m)(m_fresh m := None)\<rparr>,
            m_fresh m))"
  using assms
  by (simp add: spawn_def Let_def emit_spawn_event log_def update_cluster_def
      resolve_with_process_def m_settle_def new_promise_def)

lemma spawn_on_childless:
  assumes "clusters m cid = Some c" "thread c = None"
  shows "thread_of (fst (spawn m cid st)) cid = Some (Some (m_fresh m + 1))"
    and "heartbeat_of (fst (spawn m cid st)) cid = Some (heartbeat c)"
    and "m_intervals (fst (spawn m cid st)) = m_intervals m"
  by (simp_all add: spawn_state[OF assms] thread_of_def heartbeat_of_def)

lemma handleExit_False:
  assumes "clusters m cid = Some c" "thread c = Some h"
  shows "\<exists>m' c'. handleExit m cid False = Inr m' \<and> clusters m' cid = Some c' \<and> thread c' = None
           \<and> heartbeat c' = heartbeat c
           \<and> m_intervals m' = m_intervals m \<and> m_fresh m' = m_fresh m"
proof -
  let ?m1 = "emit m cid ''death'' (Plain (JNum (int h)))"
  have q: "quiet m ?m1" by (rule quiet_emit) simp
  then have "thread_of ?m1 cid = Some (Some h)" "heartbeat_of ?m1 cid = Some (heartbeat c)"
    using assms by (simp_all add: quiet_def thread_of_def heartbeat_of_def)
  then obtain c1 where c1: "clusters ?m1 cid = Some c1" "heartbeat c1 = heartbeat c"
    by (auto simp: thread_of_def heartbeat_of_def)
  from q have t: "m_intervals ?m1 = m_intervals m" "m_fresh ?m1 = m_fresh m"
    by (simp_all add: quiet_def)
  show ?thesis
    using assms c1 t
    by (simp add: handleExit_def Let_def debug_def log_def update_cluster_def)
qed

lemma handleExit_any:
  assumes "clusters m cid = Some c" "thread c = Some h"
  shows "\<exists>m'. handleExit m cid r = Inr m'
           \<and> thread_of m' cid = Some (if r then Some (m_fresh m + 1) else None)
           \<and> heartbeat_of m' cid = Some (heartbeat c)
           \<and> m_intervals m' = m_intervals m"
proof -
  from handleExit_False[OF assms] obtain m3 c3 where
    m3: "handleExit m cid False = Inr m3" "clusters m3 cid = Some c3" "thread c3 = None"
      "heartbeat c3 = heartbeat c" "m_intervals m3 = m_intervals m" "m_fresh m3 = m_fresh m"
    by blast
  show ?thesis
  proof (cases r)
    case False
    with m3 show ?thesis by (simp add: thread_of_def heartbeat_of_def)
  next
    case True
    obtain m4 p where s: "spawn m3 cid (Millis 30000) = (m4, p)" by (cases "spawn m3 cid (Millis 30000)")
    from m3(1) s have e: "handleExit m cid True = Inr (m4\<lparr>error_catch := (error_catch m4)(p := Some cid)\<rparr>)"
      by (auto simp: handleExit_def Let_def split: option.splits)
    from spawn_on_childless[OF m3(2,3), of "Millis 30000"] s m3(4,5,6)
    have "thread_of m4 cid = Some (Some (m_fresh m + 1))" "heartbeat_of m4 cid = Some (heartbeat c)"
      "m_intervals m4 = m_intervals m" by simp_all
    with True e show ?thesis by (simp add: thread_of_def heartbeat_of_def)
  qed
qed

lemma kill_False:
  assumes "clusters m cid = Some c" "thread c = Some h"
  shows "\<exists>m'. kill m cid False = Inr m' \<and> thread_of m' cid = Some None
           \<and> heartbeat_of m' cid = Some (heartbeat c) \<and> m_intervals m' = m_intervals m"
proof -
  let ?m1 = "log (ThreadKill cid h) (update_cluster cid (\<lambda>c. c\<lparr>process_listeners := []\<rparr>) m)"
  have c1: "clusters ?m1 cid = Some (c\<lparr>process_listeners := []\<rparr>)"
    using assms by (simp add: log_def update_cluster_def)
  have i1: "m_intervals ?m1 = m_intervals m" using assms by (simp add: log_def update_cluster_def)
  from handleExit_False[OF c1] assms(2) obtain m' c' where
    "handleExit ?m1 cid False = Inr m'" "clusters m' cid = Some c'" "thread c' = None"
    "heartbeat c' = heartbeat c" "m_intervals m' = m_intervals ?m1" by auto
  with i1 show ?thesis using assms by (simp add: kill_def Let_def thread_of_def heartbeat_of_def)
qed

lemma kill_True:
  assumes "clusters m cid = Some c" "thread c = Some h" "\<not> keepAlive_empty (m_keepAlive m)"
  shows "\<exists>m' c'. kill m cid True = Inr m' \<and> clusters m' cid = Some c' \<and> thread c' = None
           \<and> heartbeat c' = empty_heartbeat
           \<and> (\<forall>t. hb_interval (heartbeat c) = Some t \<longrightarrow> m_intervals m' t = None)
           \<and> m_fresh m' = m_fresh m"
proof -
  let ?m1 = "log (ThreadKill cid h) (update_cluster cid (\<lambda>c. c\<lparr>process_listeners := []\<rparr>) m)"
  let ?m2 = "cleanupHeartbeat ?m1 cid"
  have c2: "clusters ?m2 cid = Some (c\<lparr>process_listeners := [], heartbeat := empty_heartbeat\<rparr>)"
    using assms
    by (simp add: cleanupHeartbeat_def log_def update_cluster_def debug_def clear_interval_def
        Let_def split: option.splits)
  have t2: "\<forall>t. hb_interval (heartbeat c) = Some t \<longrightarrow> m_intervals ?m2 t = None"
    "m_fresh ?m2 = m_fresh m"
    using assms
    by (simp_all add: cleanupHeartbeat_def log_def update_cluster_def debug_def clear_interval_def
        Let_def split: option.splits)
  from handleExit_False[OF c2] assms(2) obtain m' c' where
    m': "handleExit ?m2 cid False = Inr m'" "clusters m' cid = Some c'" "thread c' = None"
    "heartbeat c' = empty_heartbeat"
    "m_intervals m' = m_intervals ?m2" "m_fresh m' = m_fresh ?m2" by auto
  from m' t2 show ?thesis using assms by (simp add: kill_def Let_def)
qed

lemma respawn_clears:
  assumes "clusters m cid = Some c" "thread c = Some h" "\<not> keepAlive_empty (m_keepAlive m)"
  shows "\<exists>m'. respawn m cid delay timeout = Inr m'
           \<and> thread_of m' cid = Some (if delay > 0 then None else Some (m_fresh m + 1))
           \<and> heartbeat_of m' cid = Some empty_heartbeat
           \<and> (\<forall>t. hb_interval (heartbeat c) = Some t \<longrightarrow> m_intervals m' t = None)"
proof -
  from kill_True[OF assms] obtain m1 c1 where
    m1: "kill m cid True = Inr m1" "clusters m1 cid = Some c1" "thread c1 = None"
      "heartbeat c1 = empty_heartbeat"
      "\<forall>t. hb_interval (heartbeat c) = Some t \<longrightarrow> m_intervals m1 t = None"
      "m_fresh m1 = m_fresh m" by blast
  show ?thesis
  proof (cases "delay > 0")
    case True
    with m1 assms(1,2) show ?thesis
      by (simp add: respawn_def thread_of_def heartbeat_of_def)
  next
    case False
    from spawn_on_childless[OF m1(2,3), of timeout] m1(4,5,6)
    have "thread_of (fst (spawn m1 cid timeout)) cid = Some (Some (m_fresh m + 1))"
      "heartbeat_of (fst (spawn m1 cid timeout)) cid = Some empty_heartbeat"
      "\<forall>t. hb_interval (heartbeat c) = Some t \<longrightarrow> m_intervals (fst (spawn m1 cid timeout)) t = None"
      by simp_all
    with False m1(1) assms(1,2) show ?thesis
      by (simp add: respawn_def)
  qed
qed

text \<open>
  C6, as the claim states it, fails: \<open>kill()\<close> without \<open>force\<close> on a cluster whose
  heartbeat check is running sets \<open>thread\<close> to \<open>null\<close> and leaves the heartbeat record
  \<open>{last: 0, missed: 0, interval}\<close> and its armed interval as they were.
\<close>

theorem kill_without_force_keeps_heartbeat:
  "\<exists>m. kill watched 0 False = Inr m \<and> thread_of m 0 = Some None
     \<and> heartbeat_of m 0 = Some \<lparr>hb_last = Some 0, hb_missed = Some 0, hb_interval = Some 4\<rparr>
     \<and> m_intervals m 4 = Some (Some 1000, HeartbeatCheck 0)"
  by (simp add: kill_def handleExit_def watched_state emit_def log_def update_cluster_def
      debug_def Let_def thread_of_def heartbeat_of_def)

text \<open>
  C6, amended. On a cluster with a child, with \<open>keepAlive\<close> configured: \<open>kill\<close> with
  \<open>force\<close> sets \<open>thread\<close> to \<open>null\<close>, clears the interval of the heartbeat check and
  leaves the heartbeat record empty, and so does \<open>respawn\<close>, which kills with \<open>force\<close>
  (and spawns a new child at once when its delay is not positive). \<open>kill\<close> without
  \<open>force\<close> sets \<open>thread\<close> to \<open>null\<close>, and \<open>_handleExit\<close> does so and then spawns a
  new child when it is told to respawn; both leave the heartbeat record as it was and
  every interval, the one of the heartbeat check among them, as it was.
\<close>

theorem heartbeat_cleared_only_by_forced_kill:
  assumes "clusters m cid = Some c" "thread c = Some h" "\<not> keepAlive_empty (m_keepAlive m)"
  shows "(\<exists>m'. kill m cid True = Inr m' \<and> thread_of m' cid = Some None
             \<and> heartbeat_of m' cid = Some empty_heartbeat
             \<and> (\<forall>t. hb_interval (heartbeat c) = Some t \<longrightarrow> m_intervals m' t = None))
       \<and> (\<exists>m'. respawn m cid delay timeout = Inr m'
             \<and> thread_of m' cid = Some (if delay > 0 then None else Some (m_fresh m + 1))
             \<and> heartbeat_of m' cid = Some empty_heartbeat
             \<and> (\<forall>t. hb_interval (heartbeat c) = Some t \<longrightarrow> m_intervals m' t = None))
       \<and> (\<exists>m'. kill m cid False = Inr m' \<and> thread_of m' cid = Some None
             \<and> heartbeat_of m' cid = Some (heartbeat c) \<and> m_intervals m' = m_intervals m)
       \<and> (\<exists>m'. handleExit m cid r = Inr m'
             \<and> thread_of m' cid = Some (if r then Some (m_fresh m + 1) else None)
             \<and> heartbeat_of m' cid = Some (heartbeat c) \<and> m_intervals m' = m_intervals m)"
proof -
  from kill_True[OF assms] obtain m' c' where
    "kill m cid True = Inr m'" "clusters m' cid = Some c'" "thread c' = None"
    "heartbeat c' = empty_heartbeat"
    "\<forall>t. hb_interval (heartbeat c) = Some t \<longrightarrow> m_intervals m' t = None" by blast
  then have forced: "\<exists>m'. kill m cid True = Inr m' \<and> thread_of m' cid = Some None
             \<and> heartbeat_of m' cid = Some empty_heartbeat
             \<and> (\<forall>t. hb_interval (heartbeat c) = Some t \<longrightarrow> m_intervals m' t = None)"
    by (simp add: thread_of_def heartbeat_of_def)
  from forced respawn_clears[OF assms, of delay timeout] kill_False[OF assms(1,2)]
    handleExit_any[OF assms(1,2), of r]
  show ?thesis by blast
qed

theorem heartbeat_cleared_only_by_forced_kill_witness:
  "(\<exists>m. kill watched 0 True = Inr m \<and> thread_of m 0 = Some None
      \<and> heartbeat_of m 0 = Some empty_heartbeat \<and> m_intervals m 4 = None)
   \<and> (\<exists>m. handleExit watched 0 True = Inr m \<and> thread_of m 0 = Some (Some 6)
      \<and> heartbeat_of m 0 = Some \<lparr>hb_last = Some 0, hb_missed = Some 0, hb_interval = Some 4\<rparr>
      \<and> m_intervals m 4 = Some (Some 1000, HeartbeatCheck 0))"
  using heartbeat_cleared_only_by_forced_kill
          [of watched 0
              "\<lparr>thread = Some 2, ready = Some True,
                heartbeat = \<lparr>hb_last = Some 0, hb_missed = Some 0, hb_interval = Some 4\<rparr>,
                restarts_current = Some 0, restarts_interval = Some 0,
                evals = Map.empty, fetches = Map.empty, listeners = [], process_listeners = []\<rparr>"
              2 500 "Millis 30000" True]
  by (auto simp add: watched_state budget2_def keepAlive_empty_def)

section \<open>The promise of spawn\<close>

text \<open>
  A listener that runs on a cluster whose child is \<open>h\<close> leaves the child in place, and
  a promise that was pending, or settled with what this listener settles with, is one
  of the two afterwards. All listeners of one event settle with the same outcome.
\<close>

lemma once_run_keeps:
  assumes "thread_of m cid = Some (Some h)"
    and "m_promises m p = None \<or> m_promises m p = Some (settles_with l h)"
  shows "thread_of (once_run cid m l) cid = Some (Some h)
       \<and> (m_promises (once_run cid m l) p = None
          \<or> m_promises (once_run cid m l) p = Some (settles_with l h))"
proof -
  from assms(1) obtain c where c: "clusters m cid = Some c" "thread c = Some h"
    by (auto simp: thread_of_def)
  show ?thesis
  proof (cases l)
    case (OnReady q t)
    with assms(2) c show ?thesis
      by (auto simp: once_run_def cleanup_def cleanupHeartbeat_def resolve_with_process_def
          m_settle_def log_def debug_def update_cluster_def clear_interval_def clear_timeout_def
          Let_def thread_of_def split: option.splits)
  next
    case (OnDisconnect q t)
    with assms(2) c show ?thesis
      by (auto simp: once_run_def cleanup_def m_settle_def log_def update_cluster_def
          clear_timeout_def Let_def thread_of_def split: option.splits)
  next
    case (OnDeath q t)
    with assms(2) c show ?thesis
      by (auto simp: once_run_def cleanup_def m_settle_def log_def update_cluster_def
          clear_timeout_def Let_def thread_of_def split: option.splits)
  qed
qed

lemma foldl_keeps:
  assumes "\<forall>l\<in>set ls. settles_with l h = out"
    and "thread_of m cid = Some (Some h)"
    and "m_promises m p = None \<or> m_promises m p = Some out"
  shows "thread_of (foldl (once_run cid) m ls) cid = Some (Some h)
       \<and> (m_promises (foldl (once_run cid) m ls) p = None
          \<or> m_promises (foldl (once_run cid) m ls) p = Some out)"
  using assms
proof (induction ls arbitrary: m)
  case Nil
  then show ?case by simp
next
  case (Cons l ls)
  from Cons.prems(1) have o: "settles_with l h = out" by simp
  from Cons.prems(3) o have
    "m_promises m p = None \<or> m_promises m p = Some (settles_with l h)" by simp
  from once_run_keeps[OF Cons.prems(2) this] o have
    "thread_of (once_run cid m l) cid = Some (Some h)"
    "m_promises (once_run cid m l) p = None \<or> m_promises (once_run cid m l) p = Some out"
    by simp_all
  moreover from Cons.prems(1) have "\<forall>l\<in>set ls. settles_with l h = out" by simp
  ultimately show ?case using Cons.IH by simp
qed

lemma settles_with_event:
  "event_of l = ''ready'' \<Longrightarrow> settles_with l h = Resolve (JNum (int h))"
  "event_of l = ''disconnect'' \<Longrightarrow> settles_with l h = Reject (js_Error ''CLUSTERING_READY_DISCONNECTED'')"
  "event_of l = ''death'' \<Longrightarrow> settles_with l h = Reject (js_Error ''CLUSTERING_READY_DIED'')"
  by (cases l; simp)+

lemma run_OnReady:
  assumes "thread_of m cid = Some (Some h)"
    and "m_promises m p = None \<or> m_promises m p = Some (Resolve (JNum (int h)))"
  shows "settled_clean (once_run cid m (OnReady p t)) cid p t (Resolve (JNum (int h)))"
proof -
  from assms(1) obtain c where c: "clusters m cid = Some c" "thread c = Some h"
    by (auto simp: thread_of_def)
  with assms(2) show ?thesis
    by (auto simp: settled_clean_def listens_for_def once_run_def cleanup_def
        cleanupHeartbeat_def resolve_with_process_def m_settle_def log_def debug_def
        update_cluster_def clear_interval_def clear_timeout_def Let_def split: option.splits)
qed

lemma run_OnDisconnect:
  assumes "m_promises m p = None
         \<or> m_promises m p = Some (Reject (js_Error ''CLUSTERING_READY_DISCONNECTED''))"
  shows "settled_clean (once_run cid m (OnDisconnect p t)) cid p t
           (Reject (js_Error ''CLUSTERING_READY_DISCONNECTED''))"
  using assms
  by (auto simp: settled_clean_def listens_for_def once_run_def cleanup_def
      m_settle_def log_def update_cluster_def clear_timeout_def Let_def split: option.splits)

lemma run_OnDeath:
  assumes "m_promises m p = None \<or> m_promises m p = Some (Reject (js_Error ''CLUSTERING_READY_DIED''))"
  shows "settled_clean (once_run cid m (OnDeath p t)) cid p t
           (Reject (js_Error ''CLUSTERING_READY_DIED''))"
  using assms
  by (auto simp: settled_clean_def listens_for_def once_run_def cleanup_def
      m_settle_def log_def update_cluster_def clear_timeout_def Let_def split: option.splits)

lemma run_SpawnTimeout:
  assumes "m_timeouts m t = Some (d, SpawnTimeout cid p)" and "m_promises m p = None"
  shows "settled_clean (fire_timer now (Timeout t) m) cid p t
           (Reject (js_Error ''CLUSTERING_READY_TIMEOUT''))"
  using assms
  by (simp add: settled_clean_def listens_for_def fire_timeout_def cleanup_def
      m_settle_def log_def update_cluster_def clear_timeout_def Let_def split: option.splits)

lemma pending_spawn_settles:
  assumes "clusters m cid = Some c" and "thread c = Some h"
    and "listeners c = ls @ [OnReady p t, OnDisconnect p t, OnDeath p t]"
    and "m_promises m p = None"
  shows "settled_clean (emit m cid ''ready'' v) cid p t (Resolve (JNum (int h)))"
    and "settled_clean (emit m cid ''disconnect'' v) cid p t
           (Reject (js_Error ''CLUSTERING_READY_DISCONNECTED''))"
    and "settled_clean (emit m cid ''death'' v) cid p t
           (Reject (js_Error ''CLUSTERING_READY_DIED''))"
proof -
  have start: "\<And>ev. thread_of (log (EmitCluster cid ev v) m) cid = Some (Some h)"
    "\<And>ev out. m_promises (log (EmitCluster cid ev v) m) p = None
               \<or> m_promises (log (EmitCluster cid ev v) m) p = Some out"
    using assms(1,2,4) by (simp_all add: log_def thread_of_def)
  have r: "emit m cid ''ready'' v
       = once_run cid (foldl (once_run cid) (log (EmitCluster cid ''ready'' v) m)
                         (filter (\<lambda>l. event_of l = ''ready'') ls)) (OnReady p t)"
    using assms(1,3) by (simp add: emit_def)
  have d: "emit m cid ''disconnect'' v
       = once_run cid (foldl (once_run cid) (log (EmitCluster cid ''disconnect'' v) m)
                         (filter (\<lambda>l. event_of l = ''disconnect'') ls)) (OnDisconnect p t)"
    using assms(1,3) by (simp add: emit_def)
  have x: "emit m cid ''death'' v
       = once_run cid (foldl (once_run cid) (log (EmitCluster cid ''death'' v) m)
                         (filter (\<lambda>l. event_of l = ''death'') ls)) (OnDeath p t)"
    using assms(1,3) by (simp add: emit_def)
  have kr: "thread_of (foldl (once_run cid) (log (EmitCluster cid ''ready'' v) m)
                         (filter (\<lambda>l. event_of l = ''ready'') ls)) cid = Some (Some h)
       \<and> (m_promises (foldl (once_run cid) (log (EmitCluster cid ''ready'' v) m)
                         (filter (\<lambda>l. event_of l = ''ready'') ls)) p = None
          \<or> m_promises (foldl (once_run cid) (log (EmitCluster cid ''ready'' v) m)
                         (filter (\<lambda>l. event_of l = ''ready'') ls)) p
              = Some (Resolve (JNum (int h))))"
    by (rule foldl_keeps[OF _ start(1) start(2)]) (simp add: settles_with_event)
  have kd: "m_promises (foldl (once_run cid) (log (EmitCluster cid ''disconnect'' v) m)
                         (filter (\<lambda>l. event_of l = ''disconnect'') ls)) p = None
          \<or> m_promises (foldl (once_run cid) (log (EmitCluster cid ''disconnect'' v) m)
                         (filter (\<lambda>l. event_of l = ''disconnect'') ls)) p
              = Some (Reject (js_Error ''CLUSTERING_READY_DISCONNECTED''))"
    by (rule foldl_keeps[OF _ start(1) start(2), THEN conjunct2]) (simp add: settles_with_event)
  have kx: "m_promises (foldl (once_run cid) (log (EmitCluster cid ''death'' v) m)
                         (filter (\<lambda>l. event_of l = ''death'') ls)) p = None
          \<or> m_promises (foldl (once_run cid) (log (EmitCluster cid ''death'' v) m)
                         (filter (\<lambda>l. event_of l = ''death'') ls)) p
              = Some (Reject (js_Error ''CLUSTERING_READY_DIED''))"
    by (rule foldl_keeps[OF _ start(1) start(2), THEN conjunct2]) (simp add: settles_with_event)
  show "settled_clean (emit m cid ''ready'' v) cid p t (Resolve (JNum (int h)))"
    unfolding r using kr by (intro run_OnReady) simp_all
  show "settled_clean (emit m cid ''disconnect'' v) cid p t
           (Reject (js_Error ''CLUSTERING_READY_DISCONNECTED''))"
    unfolding d by (rule run_OnDisconnect[OF kd])
  show "settled_clean (emit m cid ''death'' v) cid p t
           (Reject (js_Error ''CLUSTERING_READY_DIED''))"
    unfolding x by (rule run_OnDeath[OF kx])
qed

lemma spawn_guard:
  assumes "clusters m cid = Some c" "thread c = Some h"
  shows "spawn m cid st =
     (m\<lparr>m_fresh := m_fresh m + 3,
        m_promises := (m_promises m)(m_fresh m := Some (Reject (js_Error ''CLUSTERING_PROCESS_EXISTS''))),
        error_catch := (error_catch m)(m_fresh m := None),
        m_log := m_log m @ [SettleCall (m_fresh m) (Reject (js_Error ''CLUSTERING_PROCESS_EXISTS''))]\<rparr>,
      m_fresh m)"
  using assms by (simp add: spawn_def Let_def new_promise_def m_settle_def log_def)

text \<open>
  C5, as the claim states it, fails: \<open>spawn(-1)\<close> on a cluster that has a child does
  not resolve with the child handle; the promise is rejected with
  \<open>CLUSTERING_PROCESS_EXISTS\<close> and the child stays.
\<close>

theorem spawn_with_child_is_rejected:
  "(case spawn idle 0 (Millis (- 1)) of
      (m, p) \<Rightarrow> m_promises m p = Some (Reject (js_Error ''CLUSTERING_PROCESS_EXISTS''))
               \<and> thread_of m 0 = Some (Some 2))"
  by (simp add: idle_def spawn_def new_Cluster_def new_Manager_def resolve_with_process_def
      emit_def m_settle_def log_def update_cluster_def new_promise_def Let_def thread_of_def
      eval_nat_numeral)

text \<open>
  C5, amended. For \<open>spawn(spawnTimeout)\<close> on a cluster that has a child: the promise
  is rejected with \<open>CLUSTERING_PROCESS_EXISTS\<close>, and nothing is created: the clusters
  and the timers are as before and the log has the rejection only. On a cluster with
  no child the child is created; if \<open>spawnTimeout\<close> is -1 or Infinity the promise is
  resolved at once with the child handle; otherwise the promise is pending, with the
  timer armed and the three listeners registered, and whichever comes first of \<open>ready\<close>
  (resolve with the handle), \<open>disconnect\<close> (reject \<open>CLUSTERING_READY_DISCONNECTED\<close>),
  \<open>death\<close> (reject \<open>CLUSTERING_READY_DIED\<close>) and the timer (reject
  \<open>CLUSTERING_READY_TIMEOUT\<close>) settles it and leaves the timer cleared and none of
  the three listeners registered.
\<close>

theorem spawn_settles_on_first_event:
  assumes "clusters m cid = Some c" and "spawn m cid st = (m1, p)"
  shows "p = m_fresh m
     \<and> (if thread c \<noteq> None
        then m_promises m1 p = Some (Reject (js_Error ''CLUSTERING_PROCESS_EXISTS''))
           \<and> clusters m1 = clusters m \<and> m_intervals m1 = m_intervals m
           \<and> m_timeouts m1 = m_timeouts m
           \<and> m_log m1 = m_log m @ [SettleCall p (Reject (js_Error ''CLUSTERING_PROCESS_EXISTS''))]
        else thread_of m1 cid = Some (Some (m_fresh m + 1))
           \<and> (if st = Millis (- 1) \<or> st = Infinity
              then m_promises m1 p = Some (Resolve (JNum (int (m_fresh m + 1))))
              else m_promises m1 p = None
                 \<and> m_timeouts m1 (m_fresh m + 2) \<noteq> None
                 \<and> listeners_of m1 cid
                      = Some (listeners c @ [OnReady p (m_fresh m + 2), OnDisconnect p (m_fresh m + 2),
                                             OnDeath p (m_fresh m + 2)])
                 \<and> settled_clean (emit m1 cid ''ready'' v) cid p (m_fresh m + 2)
                      (Resolve (JNum (int (m_fresh m + 1))))
                 \<and> settled_clean (emit m1 cid ''disconnect'' v) cid p (m_fresh m + 2)
                      (Reject (js_Error ''CLUSTERING_READY_DISCONNECTED''))
                 \<and> settled_clean (emit m1 cid ''death'' v) cid p (m_fresh m + 2)
                      (Reject (js_Error ''CLUSTERING_READY_DIED''))
                 \<and> settled_clean (fire_timer now (Timeout (m_fresh m + 2)) m1) cid p (m_fresh m + 2)
                      (Reject (js_Error ''CLUSTERING_READY_TIMEOUT''))))"
proof (cases "thread c")
  case (Some h)
  with assms(2) spawn_guard[OF assms(1) Some, of st] show ?thesis by auto
next
  case None
  note childless = spawn_state[OF assms(1) None, of st]
  show ?thesis
  proof (cases "st = Millis (- 1) \<or> st = Infinity")
    case True
    with assms(2) childless None show ?thesis
      by (auto simp: thread_of_def)
  next
    case False
    let ?t = "m_fresh m + 2"
    let ?c1 = "c\<lparr>thread := Some (m_fresh m + 1), evals := Map.empty, fetches := Map.empty,
                 listeners := listeners c @ [OnReady (m_fresh m) ?t, OnDisconnect (m_fresh m) ?t,
                                             OnDeath (m_fresh m) ?t]\<rparr>"
    from False assms(2) childless
    have m1: "m1 = m\<lparr>m_fresh := m_fresh m + 3,
                 clusters := (clusters m)(cid := Some ?c1),
                 m_log := m_log m @ [ThreadSpawn cid (m_fresh m + 1), EmitCluster cid ''spawn'' (Plain (JNum (int (m_fresh m + 1))))],
                 m_timeouts := (m_timeouts m)(?t := Some (case st of Millis d \<Rightarrow> Some d | Infinity \<Rightarrow> None, SpawnTimeout cid (m_fresh m))),
                 m_promises := (m_promises m)(m_fresh m := None),
                 error_catch := (error_catch m)(m_fresh m := None)\<rparr>"
      and p: "p = m_fresh m"
      by auto
    have c1: "clusters m1 cid = Some ?c1" by (simp add: m1)
    have th: "thread ?c1 = Some (m_fresh m + 1)" by simp
    have ls: "listeners ?c1 = listeners c @ [OnReady p ?t, OnDisconnect p ?t, OnDeath p ?t]"
      by (simp add: p)
    have pe: "m_promises m1 p = None" by (simp add: m1 p)
    have ti: "m_timeouts m1 ?t = Some (case st of Millis d \<Rightarrow> Some d | Infinity \<Rightarrow> None, SpawnTimeout cid p)"
      by (simp add: m1 p)
    note ev = pending_spawn_settles[OF c1 th ls pe]
    have a: "listeners_of m1 cid = Some (listeners c @ [OnReady p ?t, OnDisconnect p ?t, OnDeath p ?t])"
      "thread_of m1 cid = Some (Some (m_fresh m + 1))"
      by (simp_all add: m1 p listeners_of_def thread_of_def)
    from False None p pe ti a ev(1)[of v] ev(2)[of v] ev(3)[of v] run_SpawnTimeout[OF ti pe, of now]
    show ?thesis by simp
  qed
qed

theorem spawn_settles_on_first_event_witness:
  "settled_clean (emit started 0 ''ready'' (Plain Undefined)) 0 1 3 (Resolve (JNum 2))
   \<and> settled_clean (emit started 0 ''disconnect'' (Plain Undefined)) 0 1 3
        (Reject (js_Error ''CLUSTERING_READY_DISCONNECTED''))
   \<and> settled_clean (emit started 0 ''death'' (Plain (JNum 2))) 0 1 3
        (Reject (js_Error ''CLUSTERING_READY_DIED''))
   \<and> settled_clean (fire_timer 30000 (Timeout 3) started) 0 1 3
        (Reject (js_Error ''CLUSTERING_READY_TIMEOUT''))
   \<and> m_promises (fst (spawn started 0 (Millis 30000))) 4
        = Some (Reject (js_Error ''CLUSTERING_PROCESS_EXISTS''))
   \<and> clusters (fst (spawn started 0 (Millis 30000))) = clusters started"
  using spawn_settles_on_first_event
          [of "new_Cluster (new_Manager budget2 True) 0" 0
              "\<lparr>thread = None, ready = None, heartbeat = empty_heartbeat,
                restarts_current = Some 0, restarts_interval = Some 0,
                evals = Map.empty, fetches = Map.empty, listeners = [], process_listeners = []\<rparr>"
              "Millis 30000" started 1 "Plain Undefined" 30000]
        spawn_settles_on_first_event
          [of "new_Cluster (new_Manager budget2 True) 0" 0
              "\<lparr>thread = None, ready = None, heartbeat = empty_heartbeat,
                restarts_current = Some 0, restarts_interval = Some 0,
                evals = Map.empty, fetches = Map.empty, listeners = [], process_listeners = []\<rparr>"
              "Millis 30000" started 1 "Plain (JNum 2)" 30000]
        spawn_settles_on_first_event
          [of started 0
              "\<lparr>thread = Some 2, ready = None, heartbeat = empty_heartbeat,
                restarts_current = Some 0, restarts_interval = Some 0,
                evals = Map.empty, fetches = Map.empty,
                listeners = [OnReady 1 3, OnDisconnect 1 3, OnDeath 1 3],
                process_listeners = []\<rparr>"
              "Millis 30000" "fst (spawn started 0 (Millis 30000))"
              "snd (spawn started 0 (Millis 30000))"]
  by (simp add: started_def new_Cluster_def new_Manager_def spawn_def emit_def log_def
      update_cluster_def new_promise_def m_settle_def Let_def eval_nat_numeral)

section \<open>Dispatch of messages of a child on the manager side\<close>

lemma response_branch:
  "is_ClusterEvalResponse message \<Longrightarrow>
   handleMessage now m cid message =
     (if own_key message ''hasOwnProperty''
      then Inl (TypeError ''message.hasOwnProperty is not a function'')
      else cluster_eval_response m message)"
  by (simp add: handleMessage_def is_ClusterEvalResponse_def before_response_def if_own_def
      hasOwnProperty_def)

text \<open>
  When the cluster that \<open>requestCluster\<close> names has no child, \<open>send\<close> throws on
  \<open>this.thread.send\<close>.
\<close>

lemma response_to_childless_origin_throws:
  assumes "is_ClusterEvalResponse message" and "\<not> own_key message ''hasOwnProperty''"
    and "m_nonce m (jget message ''nonce'') = Some w"
    and "cluster_key (requestCluster w) = Some target"
    and "clusters m target = Some c" and "thread c = None"
  shows "handleMessage now m cid message
       = Inl (TypeError ''Cannot read properties of null (reading send)'')"
  using assms(2-6)
  by (simp add: response_branch[OF assms(1)] cluster_eval_response_def clusters_has_def
      m_settle_def send_def log_def Let_def split: option.splits outcome.splits)

lemma settle_response:
  "m_promises (m_settle p out m) p = (case m_promises m p of None \<Rightarrow> Some out | Some x \<Rightarrow> Some x)"
  "SettleCall p out \<in> set (m_log (m_settle p out m))"
  "filter is_send (m_log (m_settle p out m)) = filter is_send (m_log m)"
  "clusters (m_settle p out m) = clusters m"
  by (simp_all add: m_settle_def log_def Let_def split: option.splits outcome.splits)

text \<open>
  C4, as the claim states it, fails: the waiter of a request that the manager's host
  made has no \<open>requestCluster\<close>. The reply resolves it and removes the nonce, and
  nothing is sent to any cluster.
\<close>

theorem response_without_origin_is_not_forwarded:
  "\<exists>m. handleMessage 0 (awaiting Undefined) 0 eval_reply = Inr m
     \<and> m_promises m 9 = Some (Resolve (JNum 3)) \<and> m_nonce m (JStr ''n2'') = None
     \<and> filter is_send (m_log m) = []"
  by (simp add: awaiting_def eval_reply_def idle_state handleMessage_def if_own_def
      hasOwnProperty_def cluster_eval_response_def clusters_has_def m_settle_def log_def Let_def)

text \<open>
  C4, amended. Let the first test of \<open>_handleMessage\<close> that holds for a message be the
  one of \<open>_sClusterEvalResponse\<close>, and let its nonce have a registered waiter. When
  the message has an own property named \<open>hasOwnProperty\<close> the handler throws a
  TypeError before it reaches the branch. Otherwise the waiter's \<open>reject\<close> is called
  with \<open>_error\<close> when that is truthy and its \<open>resolve\<close> with the response otherwise,
  which settles the promise if it was pending; the nonce is removed; and the envelope
  is sent once more, to the cluster that the waiter's \<open>requestCluster\<close> names, exactly
  when \<open>manager.clusters\<close> has that key (the cluster found there having a child);
  otherwise nothing is sent.
\<close>

theorem response_settles_and_is_forwarded:
  assumes "is_ClusterEvalResponse message"
    and "m_nonce m (jget message ''nonce'') = Some w"
    and "\<forall>target c. cluster_key (requestCluster w) = Some target \<longrightarrow>
           clusters m target = Some c \<longrightarrow> thread c \<noteq> None"
  shows "if own_key message ''hasOwnProperty''
     then handleMessage now m cid message
            = Inl (TypeError ''message.hasOwnProperty is not a function'')
     else (\<exists>m'. handleMessage now m cid message = Inr m'
        \<and> SettleCall (mw_promise w)
             (if truthy (jget message ''_error'') then Reject (jget message ''_error'')
              else Resolve (jget message ''_sClusterEvalResponse'')) \<in> set (m_log m')
        \<and> m_promises m' (mw_promise w)
            = (case m_promises m (mw_promise w) of
                 None \<Rightarrow> Some (if truthy (jget message ''_error'') then Reject (jget message ''_error'')
                               else Resolve (jget message ''_sClusterEvalResponse''))
               | Some settled \<Rightarrow> Some settled)
        \<and> m_nonce m' = (m_nonce m)(jget message ''nonce'' := None)
        \<and> filter is_send (m_log m')
            = filter is_send (m_log m)
              @ (if clusters_has m (requestCluster w)
                 then (case cluster_key (requestCluster w) of
                         Some target \<Rightarrow> [ThreadSend target message] | None \<Rightarrow> [])
                 else []))"
proof (cases "own_key message ''hasOwnProperty''")
  case True
  with response_branch[OF assms(1), of now m cid] show ?thesis by simp
next
  case False
  let ?out = "if truthy (jget message ''_error'') then Reject (jget message ''_error'')
              else Resolve (jget message ''_sClusterEvalResponse'')"
  let ?m1 = "(m_settle (mw_promise w) ?out m)\<lparr>m_nonce := (m_nonce m)(jget message ''nonce'' := None)\<rparr>"
  have h: "handleMessage now m cid message = cluster_eval_response m message"
    using response_branch[OF assms(1), of now m cid] False by simp
  have m1: "SettleCall (mw_promise w) ?out \<in> set (m_log ?m1)"
    "m_promises ?m1 (mw_promise w)
       = (case m_promises m (mw_promise w) of None \<Rightarrow> Some ?out | Some settled \<Rightarrow> Some settled)"
    "m_nonce ?m1 = (m_nonce m)(jget message ''nonce'' := None)"
    "filter is_send (m_log ?m1) = filter is_send (m_log m)"
    "clusters ?m1 = clusters m"
    using settle_response[of "mw_promise w" ?out m] by simp_all
  show ?thesis
  proof (cases "clusters_has m (requestCluster w)")
    case no: False
    then have "cluster_eval_response m message = Inr ?m1"
      using assms(2)
      by (simp add: cluster_eval_response_def clusters_has_def Let_def settle_response(4)
          split: option.splits)
    with h m1 no False show ?thesis by simp
  next
    case yes: True
    then obtain target c where t: "cluster_key (requestCluster w) = Some target"
      "clusters m target = Some c"
      by (auto simp: clusters_has_def split: option.splits)
    with assms(3) obtain hd where hd: "thread c = Some hd" by auto
    have "cluster_eval_response m message = Inr (log (ThreadSend target message) ?m1)"
      using assms(2) t hd
      by (simp add: cluster_eval_response_def clusters_has_def send_def Let_def
          settle_response(4))
    with h m1 yes t False show ?thesis by (simp add: log_def)
  qed
qed

theorem response_settles_and_is_forwarded_witness:
  "\<exists>m. handleMessage 0 (awaiting (JNum 0)) 0 eval_reply = Inr m
     \<and> m_promises m 9 = Some (Resolve (JNum 3)) \<and> m_nonce m (JStr ''n2'') = None
     \<and> filter is_send (m_log m) = [ThreadSend 0 eval_reply]"
  using response_settles_and_is_forwarded
          [of eval_reply "awaiting (JNum 0)" "\<lparr>mw_promise = 9, requestCluster = JNum 0\<rparr>" 0 0]
  by (auto simp add: awaiting_def eval_reply_def idle_state is_ClusterEvalResponse_def
      before_response_def clusters_has_def)

lemma custom_is_object: "truthy (jget message ''_sCustom'') \<Longrightarrow> typeof_object message"
  by (cases message) (simp_all add: digit_of_def)

lemma custom_branch:
  "is_custom message \<Longrightarrow>
   handleMessage now m cid message =
     (if own_key message ''hasOwnProperty''
      then Inl (TypeError ''message.hasOwnProperty is not a function'')
      else Inr (emit_message (custom_reply m message) cid message))"
  by (simp add: handleMessage_def is_custom_def before_custom_def before_response_def if_own_def
      hasOwnProperty_def)

lemma custom_falls_through:
  assumes "is_custom message" and "\<not> own_key message ''hasOwnProperty''"
  shows "\<exists>m'. handleMessage now m cid message = Inr m'
     \<and> m_log m' = m_log m
         @ (if truthy (jget message ''_sReply'')
            then (case m_nonce m (jget message ''nonce'') of
                    Some w \<Rightarrow> [SettleCall (mw_promise w) (Resolve message)]
                  | None \<Rightarrow> [])
            else [])
         @ (if truthy (jget message ''_sRequest'')
            then [EmitManager ''clientRequest'' (IPCMessage cid message)] else [])
         @ [EmitCluster cid ''message'' (IPCMessage cid message)]
     \<and> m_promises m'
         = (if truthy (jget message ''_sReply'')
            then (case m_nonce m (jget message ''nonce'') of
                    Some w \<Rightarrow>
                      (case m_promises m (mw_promise w) of
                         None \<Rightarrow> (m_promises m)(mw_promise w := Some (Resolve message))
                       | Some settled \<Rightarrow> m_promises m)
                  | None \<Rightarrow> m_promises m)
            else m_promises m)
     \<and> m_nonce m'
         = (if truthy (jget message ''_sReply'') then (m_nonce m)(jget message ''nonce'' := None)
            else m_nonce m)"
proof -
  from assms have h: "handleMessage now m cid message
      = Inr (emit_message (custom_reply m message) cid message)"
    by (simp add: custom_branch)
  from assms have o: "typeof_object message"
    by (simp add: is_custom_def custom_is_object)
  show ?thesis
    unfolding h using o
    by (auto simp: emit_message_def emit_message_event custom_reply_def m_settle_def log_def
        Let_def split: option.splits)
qed

lemma mute_refl: "mute m m"
  by (simp add: mute_def)

lemma mute_trans: "mute a b \<Longrightarrow> mute b c \<Longrightarrow> mute a c"
  by (simp add: mute_def)

lemma mute_log: "\<not> is_message_event a \<Longrightarrow> mute m (log a m)"
  by (simp add: mute_def message_events_def log_def)

lemma mute_debug: "mute m (debug text cid m)"
  by (simp add: debug_def mute_log)

lemma mute_fields:
  "mute m (m\<lparr>m_intervals := a\<rparr>)" "mute m (m\<lparr>m_nonce := b\<rparr>)" "mute m (m\<lparr>m_fresh := f\<rparr>)"
  "mute m (m\<lparr>m_promises := d\<rparr>)" "mute m (m\<lparr>error_catch := e\<rparr>)"
  "mute m (m\<lparr>m_timeouts := g\<rparr>)"
  by (simp_all add: mute_def message_events_def)

lemma mute_update_cluster: "mute m (update_cluster cid f m)"
  by (simp add: mute_def message_events_def update_cluster_def split: option.splits)

lemma mute_clear_interval: "mute m (clear_interval t m)"
  by (simp add: mute_def message_events_def clear_interval_def split: option.splits)

lemma mute_clear_timeout: "mute m (clear_timeout t m)"
  by (simp add: mute_def message_events_def clear_timeout_def)

lemma mute_settle: "mute m (m_settle p out m)"
  by (simp add: mute_def message_events_def m_settle_def log_def Let_def
      split: outcome.splits option.splits)

lemma mute_cleanup: "mute m (cleanup cid p t m)"
  unfolding cleanup_def by (rule mute_trans[OF mute_clear_timeout mute_update_cluster])

lemma mute_cleanupHeartbeat: "mute m (cleanupHeartbeat m cid)"
  unfolding cleanupHeartbeat_def Let_def
  by (auto split: option.splits
      intro: mute_refl mute_clear_interval mute_trans[OF mute_clear_interval mute_trans[OF mute_update_cluster mute_debug]])

lemma mute_resolve_with_process: "mute m (resolve_with_process cid p m)"
  by (simp add: resolve_with_process_def mute_settle split: option.splits)

lemma mute_once_run: "mute m (once_run cid m l)"
proof -
  let ?m0 = "update_cluster cid (\<lambda>c. c\<lparr>listeners := remove1 l (listeners c)\<rparr>) m"
  have 0: "mute m ?m0" by (rule mute_update_cluster)
  have "mute ?m0 (run_listener cid l ?m0)"
  proof (cases l)
    case (OnReady p t)
    then show ?thesis
      by (auto intro: mute_trans[OF mute_cleanupHeartbeat mute_trans[OF mute_cleanup mute_resolve_with_process]])
  next
    case (OnDisconnect p t)
    then show ?thesis by (auto intro: mute_trans[OF mute_cleanup mute_settle])
  next
    case (OnDeath p t)
    then show ?thesis by (auto intro: mute_trans[OF mute_cleanup mute_settle])
  qed
  with 0 show ?thesis unfolding once_run_def by (rule mute_trans)
qed

lemma mute_foldl: "mute m (foldl (once_run cid) m ls)"
proof (induction ls arbitrary: m)
  case Nil
  show ?case by (simp add: mute_refl)
next
  case (Cons l ls)
  have "mute m (once_run cid m l)" by (rule mute_once_run)
  moreover have "mute (once_run cid m l) (foldl (once_run cid) (once_run cid m l) ls)"
    by (rule Cons.IH)
  ultimately show ?case by (simp add: mute_trans)
qed

lemma mute_emit: "ev \<noteq> ''message'' \<Longrightarrow> mute m (emit m cid ev v)"
  unfolding emit_def
  by (auto split: option.splits intro!: mute_log mute_trans[OF mute_log mute_foldl])

lemma mute_checkIfClusterAlive: "mute m (checkIfClusterAlive m cid)"
  unfolding checkIfClusterAlive_def Let_def
  by (auto intro: mute_refl mute_trans[OF mute_debug mute_trans[OF mute_trans[OF mute_fields(1) mute_fields(3)] mute_update_cluster]])

lemma mute_send: "send m cid message extra = Inr m' \<Longrightarrow> mute m m'"
  by (auto simp: send_def split: option.splits intro: mute_log)

lemma mute_heartbeatMessage: "heartbeatMessage now m cid = Inr m' \<Longrightarrow> mute m m'"
  by (auto simp: heartbeatMessage_def split: if_splits
      intro: mute_refl mute_trans[OF mute_update_cluster mute_send])

lemma mute_cluster_eval_response: "cluster_eval_response m message = Inr m' \<Longrightarrow> mute m m'"
  by (auto simp: cluster_eval_response_def Let_def split: option.splits if_splits
      intro: mute_refl mute_trans[OF mute_settle mute_fields(2)]
        mute_trans[OF mute_trans[OF mute_settle mute_fields(2)] mute_send])

lemma mute_emit_branch:
  "ev \<noteq> ''message'' \<Longrightarrow> mute m (debug text cid (emit (update_cluster cid f m) cid ev v))"
  by (rule mute_trans[OF mute_update_cluster mute_trans[OF mute_emit mute_debug]])

lemma mute_ready_branch:
  "mute m (checkIfClusterAlive
             (cleanupHeartbeat (debug text cid (emit (update_cluster cid f m) cid ''ready'' v)) cid)
             cid)"
  by (rule mute_trans[OF mute_emit_branch mute_trans[OF mute_cleanupHeartbeat mute_checkIfClusterAlive]])
    simp

lemma mute_call: "mute m (log (ManagerCall name args) m)"
  by (simp add: mute_log)

lemma mute_respawnAll: "mute m (log (ManagerCall name args) (debug text cid m))"
  by (rule mute_trans[OF mute_debug mute_call])

lemma own_branches_mute:
  assumes "handleMessage now m cid message = Inr m'" and "truthy message"
    and "\<not> truthy (jget message ''_ready'')" and "\<not> truthy (jget message ''_disconnect'')"
    and "\<not> truthy (jget message ''_reconnecting'')" and "\<not> truthy (jget message ''_keepAlive'')"
    and "\<not> truthy (jget message ''_sFetchProp'')" and "\<not> truthy (jget message ''_sEval'')"
    and "own_key message ''_sManagerEval'' \<or> own_key message ''_sClusterEval''
       \<or> own_key message ''_sClusterEvalResponse''
       \<or> truthy (jget message ''_sRespawnAll'') \<or> truthy (jget message ''_spawnNextCluster'')"
  shows "mute m m'"
proof (cases "own_key message ''hasOwnProperty''")
  case True
  with assms(1-8) show ?thesis
    by (simp add: handleMessage_def if_own_def hasOwnProperty_def)
next
  case False
  with assms show ?thesis
    by (auto simp: handleMessage_def if_own_def hasOwnProperty_def mute_call mute_respawnAll
        split: if_splits dest: mute_cluster_eval_response)
qed

lemma early_branches_mute:
  assumes "handleMessage now m cid message = Inr m'" and "truthy message"
    and "truthy (jget message ''_ready'') \<or> truthy (jget message ''_disconnect'')
       \<or> truthy (jget message ''_reconnecting'') \<or> truthy (jget message ''_keepAlive'')
       \<or> truthy (jget message ''_sFetchProp'') \<or> truthy (jget message ''_sEval'')"
  shows "mute m m'"
  using assms
  by (auto simp: handleMessage_def mute_emit_branch mute_ready_branch mute_call
      split: if_splits dest: mute_heartbeatMessage)

lemma other_branches_mute:
  assumes "truthy message" and "before_custom message"
    and "handleMessage now m cid message = Inr m'"
  shows "mute m m'"
proof (cases "truthy (jget message ''_ready'') \<or> truthy (jget message ''_disconnect'')
       \<or> truthy (jget message ''_reconnecting'') \<or> truthy (jget message ''_keepAlive'')
       \<or> truthy (jget message ''_sFetchProp'') \<or> truthy (jget message ''_sEval'')")
  case True
  from assms(3,1) True show ?thesis by (rule early_branches_mute)
next
  case False
  with assms(2) have "own_key message ''_sManagerEval'' \<or> own_key message ''_sClusterEval''
       \<or> own_key message ''_sClusterEvalResponse''
       \<or> truthy (jget message ''_sRespawnAll'') \<or> truthy (jget message ''_spawnNextCluster'')"
    by (auto simp: before_custom_def before_response_def)
  with assms(3,1) False show ?thesis by (intro own_branches_mute) simp_all
qed

text \<open>
  C10, as the claim states it, fails: the custom message
  \<open>{_sCustom: true, hasOwnProperty: 1}\<close> is not emitted. The dispatch reaches the test
  \<open>message.hasOwnProperty('_sManagerEval')\<close> before the branch of \<open>_sCustom\<close>, and that
  call throws a TypeError.
\<close>

theorem shadowed_custom_is_not_emitted:
  "is_custom shadowing_custom
   \<and> handleMessage 0 idle 0 shadowing_custom
       = Inl (TypeError ''message.hasOwnProperty is not a function'')"
  by (simp add: shadowing_custom_def is_custom_def before_custom_def before_response_def
      handleMessage_def if_own_def hasOwnProperty_def)

text \<open>
  C10, amended. Let the first test of \<open>_handleMessage\<close> that holds for a message be the
  one of \<open>_sCustom\<close>. When the message has an own property named \<open>hasOwnProperty\<close> the
  handler throws a TypeError before it reaches the branch. Otherwise the branch does
  not end the dispatch: when \<open>_sReply\<close> is truthy and the nonce has a waiter, the
  waiter's \<open>resolve\<close> is called with the envelope, which settles its promise if it
  was pending, and the nonce is removed; then \<open>clientRequest\<close> is emitted on the
  manager when \<open>_sRequest\<close> is truthy, and \<open>message\<close> is emitted on the Cluster, both
  with the IPCMessage built around the envelope. A message for which the test of a
  branch above holds ends the dispatch there: no \<open>message\<close> event is emitted.
\<close>

theorem custom_does_not_end_dispatch:
  "(is_custom message \<longrightarrow>
      (if own_key message ''hasOwnProperty''
       then handleMessage now m cid message
              = Inl (TypeError ''message.hasOwnProperty is not a function'')
       else (\<exists>m'. handleMessage now m cid message = Inr m'
         \<and> m_log m' = m_log m
             @ (if truthy (jget message ''_sReply'')
                then (case m_nonce m (jget message ''nonce'') of
                        Some w \<Rightarrow> [SettleCall (mw_promise w) (Resolve message)]
                      | None \<Rightarrow> [])
                else [])
             @ (if truthy (jget message ''_sRequest'')
                then [EmitManager ''clientRequest'' (IPCMessage cid message)] else [])
             @ [EmitCluster cid ''message'' (IPCMessage cid message)]
         \<and> m_promises m'
             = (if truthy (jget message ''_sReply'')
                then (case m_nonce m (jget message ''nonce'') of
                        Some w \<Rightarrow>
                          (case m_promises m (mw_promise w) of
                             None \<Rightarrow> (m_promises m)(mw_promise w := Some (Resolve message))
                           | Some settled \<Rightarrow> m_promises m)
                      | None \<Rightarrow> m_promises m)
                else m_promises m)
         \<and> m_nonce m'
             = (if truthy (jget message ''_sReply'') then (m_nonce m)(jget message ''nonce'' := None)
                else m_nonce m))))
   \<and> (truthy message \<longrightarrow> before_custom message \<longrightarrow>
        handleMessage now m cid message = Inr m'' \<longrightarrow> message_events m'' = message_events m)"
proof (intro conjI impI)
  assume c: "is_custom message"
  show "if own_key message ''hasOwnProperty''
       then handleMessage now m cid message
              = Inl (TypeError ''message.hasOwnProperty is not a function'')
       else (\<exists>m'. handleMessage now m cid message = Inr m'
         \<and> m_log m' = m_log m
             @ (if truthy (jget message ''_sReply'')
                then (case m_nonce m (jget message ''nonce'') of
                        Some w \<Rightarrow> [SettleCall (mw_promise w) (Resolve message)]
                      | None \<Rightarrow> [])
                else [])
             @ (if truthy (jget message ''_sRequest'')
                then [EmitManager ''clientRequest'' (IPCMessage cid message)] else [])
             @ [EmitCluster cid ''message'' (IPCMessage cid message)]
         \<and> m_promises m'
             = (if truthy (jget message ''_sReply'')
                then (case m_nonce m (jget message ''nonce'') of
                        Some w \<Rightarrow>
                          (case m_promises m (mw_promise w) of
                             None \<Rightarrow> (m_promises m)(mw_promise w := Some (Resolve message))
                           | Some settled \<Rightarrow> m_promises m)
                      | None \<Rightarrow> m_promises m)
                else m_promises m)
         \<and> m_nonce m'
             = (if truthy (jget message ''_sReply'') then (m_nonce m)(jget message ''nonce'' := None)
                else m_nonce m))"
  proof (cases "own_key message ''hasOwnProperty''")
    case True
    with custom_branch[OF c, of now m cid] show ?thesis by simp
  next
    case False
    with custom_falls_through[OF c False, of now m cid] show ?thesis by simp
  qed
next
  assume "truthy message" "before_custom message" "handleMessage now m cid message = Inr m''"
  then have "mute m m''" by (rule other_branches_mute)
  then show "message_events m'' = message_events m" by (simp add: mute_def)
qed

theorem custom_does_not_end_dispatch_witness:
  "(\<exists>m. handleMessage 0 idle 0 custom_request = Inr m
       \<and> m_log m = m_log idle @ [EmitManager ''clientRequest'' (IPCMessage 0 custom_request),
                                 EmitCluster 0 ''message'' (IPCMessage 0 custom_request)])
   \<and> (\<exists>m. handleMessage 0 (awaiting Undefined) 0 (custom_reply_to ''n2'') = Inr m
       \<and> m_promises m 9 = Some (Resolve (custom_reply_to ''n2''))
       \<and> m_nonce m (JStr ''n2'') = None
       \<and> m_log m = m_log idle @ [SettleCall 9 (Resolve (custom_reply_to ''n2'')),
                                 EmitCluster 0 ''message'' (IPCMessage 0 (custom_reply_to ''n2''))])
   \<and> (\<exists>m. handleMessage 0 idle 0 ready_message = Inr m \<and> message_events m = [])"
  using custom_does_not_end_dispatch[of custom_request 0 idle 0]
        custom_does_not_end_dispatch[of "custom_reply_to ''n2''" 0 "awaiting Undefined" 0]
        custom_does_not_end_dispatch[of ready_message 0 idle 0]
  by (simp add: custom_request_def custom_reply_to_def awaiting_def ready_message_def
      is_custom_def before_custom_def before_response_def idle_state message_events_def
      if_own_def hasOwnProperty_def unfold_manager)

end
